theory Spec2Isabelle
  imports Main
begin

section \<open>JavaScript strings\<close>

text \<open>
  A JavaScript string is a sequence of UTF-16 code units. The model uses \<^typ>\<open>string\<close>,
  one \<^typ>\<open>char\<close> per code unit, and so covers the code units \<open>0x00\<close> to \<open>0xFF\<close>
  (ASCII and Latin-1), which is where SQL keywords, identifiers and decimal numbers live.
  On that range \<open>String.prototype.trim\<close> and the regular expression class \<open>\s\<close> remove
  tab, line feed, vertical tab, form feed, carriage return, space and no-break space, and
  \<open>toLowerCase\<close> maps \<open>A\<close>-\<open>Z\<close> and the Latin-1 capitals \<open>0xC0\<close>-\<open>0xDE\<close>
  (without the multiplication sign \<open>0xD7\<close>) to the code unit 32 above.
\<close>

definition isWhiteSpace :: "char \<Rightarrow> bool" where
  "isWhiteSpace c = (of_char c \<in> {9, 10, 11, 12, 13, 32, 160 :: nat})"

definition isUpper :: "char \<Rightarrow> bool" where
  "isUpper c = (let n = of_char c :: nat in
     (65 \<le> n \<and> n \<le> 90) \<or> (192 \<le> n \<and> n \<le> 222 \<and> n \<noteq> 215))"

definition lowerChar :: "char \<Rightarrow> char" where
  "lowerChar c = (if isUpper c then char_of (of_char c + 32 :: nat) else c)"

definition toLowerCase :: "string \<Rightarrow> string" where
  "toLowerCase s = map lowerChar s"

definition trim :: "string \<Rightarrow> string" where
  "trim s = rev (dropWhile isWhiteSpace (rev (dropWhile isWhiteSpace s)))"

definition startsWith :: "string \<Rightarrow> string \<Rightarrow> bool" where
  "startsWith s p = (take (length p) s = p)"

text \<open>\<open>s.includes(p)\<close>: \<open>p\<close> occurs in \<open>s\<close> as a contiguous run of code units.\<close>

fun js_includes :: "string \<Rightarrow> string \<Rightarrow> bool" where
  "js_includes [] p = (p = [])"
| "js_includes (c # cs) p = (startsWith (c # cs) p \<or> js_includes cs p)"

text \<open>\<open>xs.join(sep)\<close> on an array of strings.\<close>

fun join :: "string list \<Rightarrow> string \<Rightarrow> string" where
  "join [] sep = []"
| "join [x] sep = x"
| "join (x # y # ys) sep = x @ sep @ join (y # ys) sep"

text \<open>
  \<open>s.split(/\s+/)\<close>: the pieces between the maximal runs of white space. A run at the
  start or at the end of \<open>s\<close> leaves an empty piece there, and the empty string splits
  into one empty piece, so the result is never the empty array.
\<close>

function split_ws :: "string \<Rightarrow> string list" where
  "split_ws s =
     (let w = takeWhile (\<lambda>c. \<not> isWhiteSpace c) s;
          r = dropWhile (\<lambda>c. \<not> isWhiteSpace c) s
      in if r = [] then [w] else w # split_ws (dropWhile isWhiteSpace r))"
  by pat_completeness auto
termination
proof (relation "measure length")
  show "wf (measure length)" by simp
next
  fix s :: string and w r :: string
  assume r: "r = dropWhile (\<lambda>c. \<not> isWhiteSpace c) s" and ne: "r \<noteq> []"
  from ne obtain c cs where rc: "r = c # cs" by (cases r) auto
  have "isWhiteSpace c"
    using r rc ne hd_dropWhile [of "\<lambda>c. \<not> isWhiteSpace c" s] by (metis list.sel(1))
  then have "length (dropWhile isWhiteSpace r) \<le> length cs"
    using rc length_dropWhile_le [of isWhiteSpace cs] by simp
  moreover have "length r \<le> length s"
    using r length_dropWhile_le [of "\<lambda>c. \<not> isWhiteSpace c" s] by simp
  ultimately show "(dropWhile isWhiteSpace r, s) \<in> measure length"
    using rc by simp
qed

declare split_ws.simps [simp del]

text \<open>Decimal rendering of a non-negative integer, as a template literal renders it.\<close>

function string_of_nat :: "nat \<Rightarrow> string" where
  "string_of_nat n =
     (if n < 10 then [char_of (48 + n)]
      else string_of_nat (n div 10) @ [char_of (48 + n mod 10)])"
  by pat_completeness auto
termination
  by (relation "measure id") auto

declare string_of_nat.simps [simp del]

definition string_of_int :: "int \<Rightarrow> string" where
  "string_of_int i = (if i < 0 then CHR ''-'' # string_of_nat (nat (- i)) else string_of_nat (nat i))"

definition nl :: string where
  "nl = [CHR 0x0A]"

section \<open>Values, errors and the driver\<close>

text \<open>
  A value that crosses the driver boundary (a bound parameter, a cell of a row). Numbers are
  the integral ones; an object carries the two texts the handlers ask of it, its
  \<open>JSON.stringify\<close> form and its \<open>String\<close> form.
\<close>

datatype js_value =
    JNull
  | JUndefined
  | JBool bool
  | JNum int
  | JStr string
  | JObject string string

type_synonym row = "(string \<times> js_value) list"

fun truthy :: "js_value \<Rightarrow> bool" where
  "truthy JNull = False"
| "truthy JUndefined = False"
| "truthy (JBool b) = b"
| "truthy (JNum n) = (n \<noteq> 0)"
| "truthy (JStr s) = (s \<noteq> [])"
| "truthy (JObject j t) = True"

text \<open>\<open>String(v)\<close>, which is also what a template literal puts for \<open>v\<close>.\<close>

fun String :: "js_value \<Rightarrow> string" where
  "String JNull = ''null''"
| "String JUndefined = ''undefined''"
| "String (JBool b) = (if b then ''true'' else ''false'')"
| "String (JNum n) = string_of_int n"
| "String (JStr s) = s"
| "String (JObject j t) = t"

text \<open>\<open>row[key]\<close>: a missing property reads as \<open>undefined\<close>.\<close>

definition get_prop :: "row \<Rightarrow> string \<Rightarrow> js_value" where
  "get_prop r k = (case map_of r k of None \<Rightarrow> JUndefined | Some v \<Rightarrow> v)"

text \<open>What the \<open>pg\<close> driver throws: an error object with a message and, when the engine
  sent them, a code and a detail.\<close>

datatype pg_error = PgError (pg_message: string) (pg_code: "string option") (pg_detail: "string option")

record ZodIssue =
  path :: "string list"
  message :: string

text \<open>
  The exceptions of the program: the two classes of \<open>types.ts\<close>, the validation library's
  \<open>ZodError\<close>, a plain \<open>Error\<close>, and an exception of the driver that nothing has wrapped.
\<close>

datatype js_error =
    ValidationError string
  | DatabaseError string "string option" "string option"
  | ZodError "ZodIssue list"
  | Error string
  | DriverException pg_error

record PgQueryResult =
  pg_rows :: "row list"
  pg_rowCount :: "nat option"
  pg_command :: string
  pg_fields :: "string list option"

text \<open>
  The connection pool of the driver is outside the program. One call of the program asks it
  for at most one client and sends at most one statement, so the pool is given by its
  answers: whether \<open>pool.connect()\<close> hands out a client or throws, what \<open>client.query\<close>
  returns or throws for a statement, and whether \<open>pool.end()\<close> throws.
\<close>

record Pool =
  pool_connect :: "pg_error option"
  client_query :: "string \<Rightarrow> js_value list option \<Rightarrow> pg_error + PgQueryResult"
  pool_end :: "pg_error option"

datatype log_level = LDebug | LInfo | LWarn | LError

text \<open>What the program does to the outside, in order: the lines it logs (level and message),
  the clients it takes from the pool and gives back, the statements it sends.\<close>

datatype event =
    Logged log_level string
  | Acquired
  | Sent string "js_value list option"
  | Released
  | PoolEnded

record DatabaseConfig =
  host :: string
  port :: int
  database :: string
  user :: string
  password :: "string option"
  ssl :: bool
  poolMin :: int
  poolMax :: int
  poolIdleTimeout :: int
  queryTimeout :: int
  maxRows :: int

record DatabaseManager =
  config :: DatabaseConfig
  pool :: Pool

record QueryResult =
  rows :: "row list"
  rowCount :: nat
  result_fields :: "string list option"

record ExecuteResult =
  exec_rowCount :: nat
  command :: string

section \<open>database.ts: the pool manager\<close>

text \<open>\<open>xs.slice(0, n)\<close> for an integer \<open>n\<close>: a negative \<open>n\<close> counts from the end.\<close>

definition slice0 :: "'a list \<Rightarrow> int \<Rightarrow> 'a list" where
  "slice0 xs n = (if n < 0 then take (length xs - nat (- n)) xs else take (nat n) xs)"

text \<open>\<open>a || b\<close> on strings: the empty string is falsy.\<close>

definition or_else :: "string \<Rightarrow> string \<Rightarrow> string" where
  "or_else a b = (if a = [] then b else a)"

definition DatabaseManager_query ::
  "DatabaseManager \<Rightarrow> string \<Rightarrow> js_value list option \<Rightarrow> event list
     \<Rightarrow> (js_error + QueryResult) \<times> event list" where
  "DatabaseManager_query db sql ps tr =
     (case pool_connect (pool db) of
        Some e \<Rightarrow> (Inl (DriverException e), tr)
      | None \<Rightarrow>
          (let tr1 = tr @ [Acquired, Logged LDebug ''Executing query'', Sent sql ps] in
           case client_query (pool db) sql ps of
             Inr result \<Rightarrow>
               (let tr2 = tr1 @ [Logged LDebug ''Query completed''];
                    limitedRows = slice0 (pg_rows result) (maxRows (config db));
                    tr3 = (if int (length (pg_rows result)) > maxRows (config db)
                           then tr2 @ [Logged LWarn (''Query returned ''
                                  @ string_of_nat (length (pg_rows result))
                                  @ '' rows, limited to '' @ string_of_int (maxRows (config db)))]
                           else tr2)
                in (Inr \<lparr>rows = limitedRows,
                         rowCount = (case pg_rowCount result of None \<Rightarrow> 0 | Some n \<Rightarrow> n),
                         result_fields = pg_fields result\<rparr>,
                    tr3 @ [Released]))
           | Inl error \<Rightarrow>
               (Inl (DatabaseError (or_else (pg_message error) ''Query execution failed'')
                       (pg_code error) (pg_detail error)),
                tr1 @ [Logged LError ''Query failed'', Released])))"

definition DatabaseManager_execute ::
  "DatabaseManager \<Rightarrow> string \<Rightarrow> js_value list option \<Rightarrow> event list
     \<Rightarrow> (js_error + ExecuteResult) \<times> event list" where
  "DatabaseManager_execute db sql ps tr =
     (case pool_connect (pool db) of
        Some e \<Rightarrow> (Inl (DriverException e), tr)
      | None \<Rightarrow>
          (let tr1 = tr @ [Acquired, Logged LDebug ''Executing command'', Sent sql ps] in
           case client_query (pool db) sql ps of
             Inr result \<Rightarrow>
               (Inr \<lparr>exec_rowCount = (case pg_rowCount result of None \<Rightarrow> 0 | Some n \<Rightarrow> n),
                     command = or_else (pg_command result) ''UNKNOWN''\<rparr>,
                tr1 @ [Logged LDebug ''Command completed'', Released])
           | Inl error \<Rightarrow>
               (Inl (DatabaseError (or_else (pg_message error) ''Command execution failed'')
                       (pg_code error) (pg_detail error)),
                tr1 @ [Logged LError ''Command failed'', Released])))"

definition DatabaseManager_close ::
  "DatabaseManager \<Rightarrow> event list \<Rightarrow> (js_error + unit) \<times> event list" where
  "DatabaseManager_close db tr =
     (let tr1 = tr @ [Logged LInfo ''Closing database connection pool''] in
      case pool_end (pool db) of
        None \<Rightarrow>
          (Inr (), tr1 @ [PoolEnded, Logged LInfo ''Database connection pool closed successfully''])
      | Some e \<Rightarrow>
          (Inl (DatabaseError ''Failed to close database connection pool'' None None),
           tr1 @ [Logged LError ''Error closing database connection pool'']))"

definition dq :: string where
  "dq = [CHR 0x22]"

definition sq :: string where
  "sq = [CHR 0x27]"

record ColumnDefinition =
  col_name :: string
  col_type :: string
  col_constraints :: "string option"

definition describeTableSQL :: string where
  "describeTableSQL = concat (map (\<lambda>l. l @ nl)
     [[],
      ''      SELECT '',
      ''        column_name as '' @ dq @ ''columnName'' @ dq @ '','',
      ''        data_type as '' @ dq @ ''dataType'' @ dq @ '','',
      ''        is_nullable = '' @ sq @ ''YES'' @ sq @ '' as '' @ dq @ ''isNullable'' @ dq @ '','',
      ''        column_default as '' @ dq @ ''columnDefault'' @ dq @ '','',
      ''        character_maximum_length as '' @ dq @ ''characterMaximumLength'' @ dq @ '','',
      ''        numeric_precision as '' @ dq @ ''numericPrecision'' @ dq @ '','',
      ''        numeric_scale as '' @ dq @ ''numericScale'' @ dq,
      ''      FROM information_schema.columns '',
      ''      WHERE table_name = $1'',
      ''        AND table_schema NOT IN ('' @ sq @ ''information_schema'' @ sq @ '', ''
          @ sq @ ''pg_catalog'' @ sq @ '')'',
      ''      ORDER BY ordinal_position;'']) @ ''    ''"

definition DatabaseManager_describeTable ::
  "DatabaseManager \<Rightarrow> string \<Rightarrow> event list \<Rightarrow> (js_error + row list) \<times> event list" where
  "DatabaseManager_describeTable db tableName tr =
     (case DatabaseManager_query db describeTableSQL (Some [JStr tableName]) tr of
        (Inl e, tr1) \<Rightarrow> (Inl e, tr1)
      | (Inr result, tr1) \<Rightarrow> (Inr (rows result), tr1))"

definition DatabaseManager_createTable ::
  "DatabaseManager \<Rightarrow> string \<Rightarrow> ColumnDefinition list \<Rightarrow> bool \<Rightarrow> event list
     \<Rightarrow> (js_error + ExecuteResult) \<times> event list" where
  "DatabaseManager_createTable db tableName cols ifNotExists tr =
     (let columnDefs = join (map (\<lambda>col.
            (let constraints = (case col_constraints col of
                                  None \<Rightarrow> []
                                | Some c \<Rightarrow> if c = [] then [] else '' '' @ c)
             in col_name col @ '' '' @ col_type col @ constraints)) cols) '', '';
          ifNotExistsClause = (if ifNotExists then ''IF NOT EXISTS '' else []);
          createTableSQL = ''CREATE TABLE '' @ ifNotExistsClause @ tableName
                             @ '' ('' @ columnDefs @ '')''
      in DatabaseManager_execute db createTableSQL None tr)"

section \<open>types.ts: the input schemas\<close>

text \<open>
  The handlers receive the arguments of a call and parse them with a schema of the
  validation library. The model starts from arguments of the right JSON types (a string
  where the schema wants a string, and so on) and keeps the checks the schemas of this
  program add: the minimal lengths with their messages, and the default of
  \<open>ifNotExists\<close>. A parse collects every issue, in the order of the schema's keys, and
  throws a \<open>ZodError\<close> when there is one.
\<close>

record QueryParams =
  query :: string
  params :: "js_value list option"

type_synonym ExecuteParams = QueryParams

definition QueryParamsSchema_parse :: "QueryParams \<Rightarrow> js_error + QueryParams" where
  "QueryParamsSchema_parse args =
     (if query args = [] then Inl (ZodError [\<lparr>path = [''query''], message = ''Query cannot be empty''\<rparr>])
      else Inr args)"

definition ExecuteParamsSchema_parse :: "ExecuteParams \<Rightarrow> js_error + ExecuteParams" where
  "ExecuteParamsSchema_parse args =
     (if query args = [] then Inl (ZodError [\<lparr>path = [''query''], message = ''Query cannot be empty''\<rparr>])
      else Inr args)"

record CreateTableArgs =
  arg_tableName :: string
  arg_columns :: "ColumnDefinition list"
  arg_ifNotExists :: "bool option"

record CreateTableParams =
  tableName :: string
  columns :: "ColumnDefinition list"
  ifNotExists :: bool

definition columnIssues :: "nat \<Rightarrow> ColumnDefinition \<Rightarrow> ZodIssue list" where
  "columnIssues i col =
     (if col_name col = []
      then [\<lparr>path = [''columns'', string_of_nat i, ''name''], message = ''Column name cannot be empty''\<rparr>]
      else [])
     @ (if col_type col = []
        then [\<lparr>path = [''columns'', string_of_nat i, ''type''], message = ''Column type cannot be empty''\<rparr>]
        else [])"

definition CreateTableParamsSchema_parse :: "CreateTableArgs \<Rightarrow> js_error + CreateTableParams" where
  "CreateTableParamsSchema_parse args =
     (let issues =
            (if arg_tableName args = []
             then [\<lparr>path = [''tableName''], message = ''Table name cannot be empty''\<rparr>] else [])
            @ (if arg_columns args = []
               then [\<lparr>path = [''columns''], message = ''At least one column is required''\<rparr>] else [])
            @ concat (map (\<lambda>(i, col). columnIssues i col)
                        (zip [0 ..< length (arg_columns args)] (arg_columns args)))
      in if issues = []
         then Inr \<lparr>tableName = arg_tableName args, columns = arg_columns args,
                   ifNotExists = (case arg_ifNotExists args of None \<Rightarrow> True | Some b \<Rightarrow> b)\<rparr>
         else Inl (ZodError issues))"

record DescribeTableParams =
  describe_tableName :: string

definition DescribeTableParamsSchema_parse :: "DescribeTableParams \<Rightarrow> js_error + DescribeTableParams" where
  "DescribeTableParamsSchema_parse args =
     (if describe_tableName args = []
      then Inl (ZodError [\<lparr>path = [''tableName''], message = ''Table name cannot be empty''\<rparr>])
      else Inr args)"

record MCPToolResponse =
  content_text :: string
  isError :: bool

section \<open>The handlers' catch blocks\<close>

definition issueDetails :: "ZodIssue list \<Rightarrow> string" where
  "issueDetails issues = join (map (\<lambda>issue. join (path issue) ''.'' @ '': '' @ message issue) issues) '', ''"

text \<open>
  The catch block of \<open>handleQuery\<close>, \<open>handleExecute\<close> and \<open>handleCreateTable\<close>. No
  \<open>ValidationError\<close> of the program carries issues, so its branch adds no details. An
  exception of the driver is an \<open>Error\<close> of none of the three classes tested first.
\<close>

fun errorMessage :: "js_error \<Rightarrow> string" where
  "errorMessage (ValidationError m) = ''Validation Error: '' @ m"
| "errorMessage (DatabaseError m c d) =
     ''Database Error: '' @ m
     @ (case c of None \<Rightarrow> [] | Some c' \<Rightarrow> if c' = [] then [] else '' (Code: '' @ c' @ '')'')
     @ (case d of None \<Rightarrow> [] | Some d' \<Rightarrow> if d' = [] then [] else nl @ ''Detail: '' @ d')"
| "errorMessage (ZodError issues) = ''Input Validation Error: '' @ issueDetails issues"
| "errorMessage (Error m) = ''Unexpected Error: '' @ m"
| "errorMessage (DriverException e) = ''Unexpected Error: '' @ pg_message e"

text \<open>The catch block of \<open>handleDescribeTable\<close>, which leaves the detail out.\<close>

fun describeErrorMessage :: "js_error \<Rightarrow> string" where
  "describeErrorMessage (ValidationError m) = ''Validation Error: '' @ m"
| "describeErrorMessage (DatabaseError m c d) =
     ''Database Error: '' @ m
     @ (case c of None \<Rightarrow> [] | Some c' \<Rightarrow> if c' = [] then [] else '' (Code: '' @ c' @ '')'')"
| "describeErrorMessage (ZodError issues) = ''Input Validation Error: '' @ issueDetails issues"
| "describeErrorMessage (Error m) = ''Unexpected Error: '' @ m"
| "describeErrorMessage (DriverException e) = ''Unexpected Error: '' @ pg_message e"

definition caught :: "string \<Rightarrow> string \<Rightarrow> event list \<Rightarrow> MCPToolResponse \<times> event list" where
  "caught logMessage errorText tr =
     (\<lparr>content_text = errorText, isError = True\<rparr>, tr @ [Logged LError logMessage])"

section \<open>tools/query.ts\<close>

fun renderCell :: "js_value \<Rightarrow> string" where
  "renderCell JNull = ''NULL''"
| "renderCell JUndefined = ''UNDEFINED''"
| "renderCell (JObject j t) = j"
| "renderCell v = String v"

text \<open>The text of a successful read, with \<open>JSON.stringify(rows, null, 2)\<close> of the runtime
  as a parameter.\<close>

definition queryResponseText :: "(row list \<Rightarrow> string) \<Rightarrow> QueryResult \<Rightarrow> string" where
  "queryResponseText JSON_stringify result =
     (if rows result = [] then ''Query executed successfully but returned no rows.''
      else
        (let headers = (case result_fields result of
                          Some fs \<Rightarrow> fs
                        | None \<Rightarrow> (case rows result of [] \<Rightarrow> [] | r # _ \<Rightarrow> map fst r));
             shown = min (length (rows result)) 100;
             responseText = ''Query executed successfully. Returned ''
                              @ string_of_nat (rowCount result) @ '' row(s).'' @ nl @ nl
         in if headers \<noteq> []
            then responseText
                 @ join headers '' | '' @ nl
                 @ join (map (\<lambda>h. ''---'') headers) '' | '' @ nl
                 @ concat (map (\<lambda>r. join (map (\<lambda>header. renderCell (get_prop r header)) headers) '' | '' @ nl)
                             (take shown (rows result)))
                 @ (if length (rows result) > shown
                    then nl @ ''... and '' @ string_of_nat (length (rows result) - shown)
                           @ '' more rows (truncated for display)''
                    else [])
            else responseText
                 @ JSON_stringify (take shown (rows result))
                 @ (if length (rows result) > shown
                    then nl @ nl @ ''... and '' @ string_of_nat (length (rows result) - shown)
                           @ '' more rows (truncated for display)''
                    else [])))"

definition handleQuery ::
  "(row list \<Rightarrow> string) \<Rightarrow> DatabaseManager \<Rightarrow> QueryParams \<Rightarrow> event list
     \<Rightarrow> MCPToolResponse \<times> event list" where
  "handleQuery JSON_stringify db args tr =
     (case QueryParamsSchema_parse args of
        Inl e \<Rightarrow> caught ''Query tool error'' (errorMessage e) tr
      | Inr p \<Rightarrow>
          (let tr1 = tr @ [Logged LInfo ''Executing query tool''];
               trimmedQuery = toLowerCase (trim (query p))
           in if \<not> startsWith trimmedQuery ''select'' \<and> \<not> startsWith trimmedQuery ''with''
              then caught ''Query tool error''
                     (errorMessage (ValidationError
                        ''Query tool only supports SELECT and WITH statements for security reasons''))
                     tr1
              else (case DatabaseManager_query db (query p) (params p) tr1 of
                      (Inl e, tr2) \<Rightarrow> caught ''Query tool error'' (errorMessage e) tr2
                    | (Inr result, tr2) \<Rightarrow>
                        (\<lparr>content_text = queryResponseText JSON_stringify result, isError = False\<rparr>,
                         tr2 @ [Logged LInfo ''Query executed successfully'']))))"

section \<open>tools/execute.ts\<close>

definition ALLOWED_COMMANDS :: "string list" where
  "ALLOWED_COMMANDS =
     [''insert'', ''update'', ''delete'', ''create'', ''alter'', ''drop'', ''truncate'', ''grant'', ''revoke'']"

definition DANGEROUS_COMMANDS :: "string list" where
  "DANGEROUS_COMMANDS =
     [''drop database'', ''drop schema'', ''drop user'', ''drop role'', ''shutdown'', ''restart'']"

definition executeResponseText :: "ExecuteResult \<Rightarrow> string" where
  "executeResponseText result =
     (let c = toLowerCase (command result);
          n = string_of_nat (exec_rowCount result)
      in if c = ''insert'' then ''INSERT operation completed successfully. '' @ n @ '' row(s) inserted.''
         else if c = ''update'' then ''UPDATE operation completed successfully. '' @ n @ '' row(s) updated.''
         else if c = ''delete'' then ''DELETE operation completed successfully. '' @ n @ '' row(s) deleted.''
         else if c = ''create'' then ''CREATE operation completed successfully.''
         else if c = ''alter'' then ''ALTER operation completed successfully.''
         else if c = ''drop'' then ''DROP operation completed successfully.''
         else if c = ''truncate''
           then ''TRUNCATE operation completed successfully. All rows removed from table.''
         else if c = ''grant'' then ''GRANT operation completed successfully. Permissions granted.''
         else if c = ''revoke'' then ''REVOKE operation completed successfully. Permissions revoked.''
         else command result @ '' operation completed successfully. '' @ n @ '' row(s) affected.'')"

definition handleExecute ::
  "DatabaseManager \<Rightarrow> ExecuteParams \<Rightarrow> event list \<Rightarrow> MCPToolResponse \<times> event list" where
  "handleExecute db args tr =
     (case ExecuteParamsSchema_parse args of
        Inl e \<Rightarrow> caught ''Execute tool error'' (errorMessage e) tr
      | Inr p \<Rightarrow>
          (let tr1 = tr @ [Logged LInfo ''Executing command tool''];
               trimmedQuery = toLowerCase (trim (query p))
           in case find (\<lambda>dangerousCmd. js_includes trimmedQuery dangerousCmd) DANGEROUS_COMMANDS of
                Some dangerousCmd \<Rightarrow>
                  caught ''Execute tool error''
                    (errorMessage (ValidationError
                       (''Dangerous command detected: '' @ dangerousCmd
                        @ ''. This operation is not allowed for security reasons.'')))
                    tr1
              | None \<Rightarrow>
                  (let firstWord = (case split_ws (trim (query p)) of
                                      [] \<Rightarrow> None
                                    | w # _ \<Rightarrow> Some (toLowerCase w))
                   in if (case firstWord of None \<Rightarrow> True
                          | Some w \<Rightarrow> w = [] \<or> w \<notin> set ALLOWED_COMMANDS)
                      then caught ''Execute tool error''
                             (errorMessage (ValidationError
                                (''Command '' @ sq
                                 @ (case firstWord of None \<Rightarrow> ''undefined'' | Some w \<Rightarrow> w)
                                 @ sq @ '' is not allowed. Allowed commands: ''
                                 @ join ALLOWED_COMMANDS '', '')))
                             tr1
                      else if firstWord = Some ''select'' \<or> startsWith trimmedQuery ''with''
                      then caught ''Execute tool error''
                             (errorMessage (ValidationError
                                ''SELECT and WITH statements should use the postgresql_query tool instead''))
                             tr1
                      else (case DatabaseManager_execute db (query p) (params p) tr1 of
                              (Inl e, tr2) \<Rightarrow> caught ''Execute tool error'' (errorMessage e) tr2
                            | (Inr result, tr2) \<Rightarrow>
                                (\<lparr>content_text = executeResponseText result, isError = False\<rparr>,
                                 tr2 @ [Logged LInfo ''Command executed successfully''])))))"

section \<open>tools/schema.ts\<close>

text \<open>The test \<open>/^[a-zA-Z_][a-zA-Z0-9_]*$/.test(s)\<close>. Without the multiline flag \<open>$\<close> is
  the end of the string only.\<close>

definition isIdentStart :: "char \<Rightarrow> bool" where
  "isIdentStart c = (let n = of_char c :: nat in
     (97 \<le> n \<and> n \<le> 122) \<or> (65 \<le> n \<and> n \<le> 90) \<or> n = 95)"

definition isIdentPart :: "char \<Rightarrow> bool" where
  "isIdentPart c = (let n = of_char c :: nat in
     (97 \<le> n \<and> n \<le> 122) \<or> (65 \<le> n \<and> n \<le> 90) \<or> (48 \<le> n \<and> n \<le> 57) \<or> n = 95)"

definition validIdentifier :: "string \<Rightarrow> bool" where
  "validIdentifier s = (case s of [] \<Rightarrow> False | c # cs \<Rightarrow> isIdentStart c \<and> list_all isIdentPart cs)"

definition invalidTableName :: string where
  "invalidTableName = ''Invalid table name. Table names must start with a letter or underscore and contain only letters, numbers, and underscores.''"

definition handleCreateTable ::
  "DatabaseManager \<Rightarrow> CreateTableArgs \<Rightarrow> event list \<Rightarrow> MCPToolResponse \<times> event list" where
  "handleCreateTable db args tr =
     (case CreateTableParamsSchema_parse args of
        Inl e \<Rightarrow> caught ''Create table tool error'' (errorMessage e) tr
      | Inr p \<Rightarrow>
          (let tr1 = tr @ [Logged LInfo ''Creating table''] in
           if \<not> validIdentifier (tableName p)
           then caught ''Create table tool error'' (errorMessage (ValidationError invalidTableName)) tr1
           else (case find (\<lambda>column. \<not> validIdentifier (col_name column)) (columns p) of
                   Some column \<Rightarrow>
                     caught ''Create table tool error''
                       (errorMessage (ValidationError
                          (''Invalid column name '' @ sq @ col_name column @ sq
                           @ ''. Column names must start with a letter or underscore and contain only letters, numbers, and underscores.'')))
                       tr1
                 | None \<Rightarrow>
                     (case DatabaseManager_createTable db (tableName p) (columns p) (ifNotExists p) tr1 of
                        (Inl e, tr2) \<Rightarrow> caught ''Create table tool error'' (errorMessage e) tr2
                      | (Inr result, tr2) \<Rightarrow>
                          (\<lparr>content_text =
                              ''Table '' @ sq @ tableName p @ sq @ '' created successfully with ''
                              @ string_of_nat (length (columns p)) @ '' column(s).'' @ nl @ nl
                              @ ''Columns:'' @ nl
                              @ join (map (\<lambda>col. ''- '' @ col_name col @ '': '' @ col_type col
                                             @ (case col_constraints col of
                                                  None \<Rightarrow> []
                                                | Some c \<Rightarrow> if c = [] then [] else '' '' @ c))
                                        (columns p)) nl,
                             isError = False\<rparr>,
                           tr2 @ [Logged LInfo ''Table created successfully''])))))"

text \<open>One line of the table that \<open>handleDescribeTable\<close> prints for a column.\<close>

definition describeLine :: "row \<Rightarrow> string" where
  "describeLine column =
     (let nullable = (if truthy (get_prop column ''isNullable'') then ''YES'' else ''NO'');
          defaultValue = (if truthy (get_prop column ''columnDefault'')
                          then String (get_prop column ''columnDefault'') else ''NULL'');
          maxLength = (if truthy (get_prop column ''characterMaximumLength'')
                       then String (get_prop column ''characterMaximumLength'') else ''N/A'');
          precision = (if truthy (get_prop column ''numericPrecision'')
                       then String (get_prop column ''numericPrecision'') else ''N/A'');
          scale = (if truthy (get_prop column ''numericScale'')
                   then String (get_prop column ''numericScale'') else ''N/A'')
      in String (get_prop column ''columnName'') @ '' | '' @ String (get_prop column ''dataType'')
         @ '' | '' @ nullable @ '' | '' @ defaultValue @ '' | '' @ maxLength
         @ '' | '' @ precision @ '' | '' @ scale @ nl)"

definition handleDescribeTable ::
  "DatabaseManager \<Rightarrow> DescribeTableParams \<Rightarrow> event list \<Rightarrow> MCPToolResponse \<times> event list" where
  "handleDescribeTable db args tr =
     (case DescribeTableParamsSchema_parse args of
        Inl e \<Rightarrow> caught ''Describe table tool error'' (describeErrorMessage e) tr
      | Inr p \<Rightarrow>
          (let tr1 = tr @ [Logged LInfo ''Describing table''] in
           if \<not> validIdentifier (describe_tableName p)
           then caught ''Describe table tool error''
                  (describeErrorMessage (ValidationError invalidTableName)) tr1
           else (case DatabaseManager_describeTable db (describe_tableName p) tr1 of
                   (Inl e, tr2) \<Rightarrow> caught ''Describe table tool error'' (describeErrorMessage e) tr2
                 | (Inr cols, tr2) \<Rightarrow>
                     if cols = []
                     then (\<lparr>content_text = ''Table '' @ sq @ describe_tableName p @ sq
                                             @ '' not found or has no columns.'',
                            isError = False\<rparr>, tr2)
                     else (\<lparr>content_text =
                              ''Table '' @ sq @ describe_tableName p @ sq @ '' structure:'' @ nl @ nl
                              @ ''Column Name | Data Type | Nullable | Default | Max Length | Precision | Scale'' @ nl
                              @ ''--- | --- | --- | --- | --- | --- | ---'' @ nl
                              @ concat (map describeLine cols),
                            isError = False\<rparr>,
                           tr2 @ [Logged LInfo ''Table described successfully'']))))"

section \<open>database.ts: loadConfig\<close>

text \<open>
  A number of the configuration is \<open>NaN\<close> or an integer. \<open>parseInt(s, 10)\<close> skips
  leading white space, reads an optional sign and then the longest run of decimal digits,
  and is \<open>NaN\<close> when there is no digit. The model keeps the integer exactly, as the
  runtime does below \<open>2^53\<close>. Above that the runtime rounds to a floating-point number,
  and from about \<open>1.8e308\<close> on it gives \<open>Infinity\<close>, which the schema refuses; the
  model does not follow it there, and returns a configuration for such a digit string.
\<close>

datatype js_number = NaN | Num int

definition isDigit :: "char \<Rightarrow> bool" where
  "isDigit c = (let n = of_char c :: nat in 48 \<le> n \<and> n \<le> 57)"

definition digitsValue :: "string \<Rightarrow> nat" where
  "digitsValue ds = foldl (\<lambda>a c. 10 * a + (of_char c - 48)) 0 ds"

definition parseInt :: "string \<Rightarrow> js_number" where
  "parseInt s =
     (let t = dropWhile isWhiteSpace s;
          neg = (case t of [] \<Rightarrow> False | c # _ \<Rightarrow> c = CHR ''-'');
          r = (case t of [] \<Rightarrow> [] | c # cs \<Rightarrow> if c = CHR ''-'' \<or> c = CHR ''+'' then cs else t);
          ds = takeWhile isDigit r
      in if ds = [] then NaN
         else Num (if neg then - int (digitsValue ds) else int (digitsValue ds)))"

text \<open>The environment; \<open>env[k] || d\<close> takes \<open>d\<close> for a variable that is unset or empty.\<close>

type_synonym env = "string \<Rightarrow> string option"

definition env_or :: "env \<Rightarrow> string \<Rightarrow> string \<Rightarrow> string" where
  "env_or e k d = (case e k of None \<Rightarrow> d | Some v \<Rightarrow> if v = [] then d else v)"

text \<open>What \<open>new URL(connectionString)\<close> of the runtime gives, the fields \<open>loadConfig\<close> reads.\<close>

record URL =
  hostname :: string
  url_port :: string
  pathname :: string
  username :: string
  url_password :: string

record ParsedConnection =
  pc_host :: string
  pc_port :: js_number
  pc_database :: string
  pc_user :: string
  pc_password :: string

record RawConfig =
  raw_host :: string
  raw_port :: js_number
  raw_database :: string
  raw_user :: string
  raw_password :: "string option"
  raw_ssl :: bool
  raw_sslRejectUnauthorized :: bool
  raw_connectionTimeoutMillis :: js_number
  raw_queryTimeout :: js_number
  raw_maxConnections :: js_number
  raw_idleTimeoutMillis :: js_number
  raw_poolMin :: js_number
  raw_poolMax :: js_number
  raw_poolIdleTimeout :: js_number
  raw_maxRows :: js_number

text \<open>\<open>z.number().int().positive()\<close>: \<open>NaN\<close> is no number for the library, and the
  integer must be greater than zero.\<close>

fun positiveInt :: "js_number \<Rightarrow> int option" where
  "positiveInt NaN = None"
| "positiveInt (Num n) = (if n > 0 then Some n else None)"

text \<open>
  \<open>DatabaseConfigSchema.parse(rawConfig)\<close>, with \<open>None\<close> for a thrown \<open>ZodError\<close>
  (\<open>loadConfig\<close> catches it and does not look at it). The strings and the flag of
  \<open>rawConfig\<close> always have the type the schema wants, so only the six numbers of the
  schema can fail; the keys the schema does not name are stripped.
\<close>

definition DatabaseConfigSchema_parse :: "RawConfig \<Rightarrow> DatabaseConfig option" where
  "DatabaseConfigSchema_parse raw =
     (case (positiveInt (raw_port raw), positiveInt (raw_poolMin raw), positiveInt (raw_poolMax raw),
            positiveInt (raw_poolIdleTimeout raw), positiveInt (raw_queryTimeout raw),
            positiveInt (raw_maxRows raw)) of
        (Some p, Some pmin, Some pmax, Some idle, Some qt, Some mr) \<Rightarrow>
          Some \<lparr>host = raw_host raw, port = p, database = raw_database raw, user = raw_user raw,
                password = raw_password raw, ssl = raw_ssl raw, poolMin = pmin, poolMax = pmax,
                poolIdleTimeout = idle, queryTimeout = qt, maxRows = mr\<rparr>
      | _ \<Rightarrow> None)"

definition pc_string :: "ParsedConnection option \<Rightarrow> (ParsedConnection \<Rightarrow> string) \<Rightarrow> string" where
  "pc_string pc f = (case pc of None \<Rightarrow> [] | Some c \<Rightarrow> f c)"

definition makeRawConfig :: "ParsedConnection option \<Rightarrow> env \<Rightarrow> RawConfig" where
  "makeRawConfig parsedConnection e =
     \<lparr>raw_host = or_else (pc_string parsedConnection pc_host) (env_or e ''POSTGRES_HOST'' ''localhost''),
      raw_port = (case parsedConnection of
                    None \<Rightarrow> parseInt (env_or e ''POSTGRES_PORT'' ''5432'')
                  | Some c \<Rightarrow>
                      (case pc_port c of
                         NaN \<Rightarrow> parseInt (env_or e ''POSTGRES_PORT'' ''5432'')
                       | Num n \<Rightarrow> if n = 0 then parseInt (env_or e ''POSTGRES_PORT'' ''5432'') else Num n)),
      raw_database = or_else (pc_string parsedConnection pc_database) (env_or e ''POSTGRES_DATABASE'' ''postgres''),
      raw_user = or_else (pc_string parsedConnection pc_user) (env_or e ''POSTGRES_USER'' ''postgres''),
      raw_password = (if pc_string parsedConnection pc_password \<noteq> []
                      then Some (pc_string parsedConnection pc_password)
                      else e ''POSTGRES_PASSWORD''),
      raw_ssl = (e ''POSTGRES_SSL'' = Some ''true''),
      raw_sslRejectUnauthorized = (e ''POSTGRES_SSL_REJECT_UNAUTHORIZED'' \<noteq> Some ''false''),
      raw_connectionTimeoutMillis = parseInt (env_or e ''POSTGRES_CONNECTION_TIMEOUT'' ''10000''),
      raw_queryTimeout = parseInt (env_or e ''POSTGRES_QUERY_TIMEOUT'' ''30000''),
      raw_maxConnections = parseInt (env_or e ''POSTGRES_MAX_CONNECTIONS'' ''10''),
      raw_idleTimeoutMillis = parseInt (env_or e ''POSTGRES_POOL_IDLE_TIMEOUT'' ''30000''),
      raw_poolMin = parseInt (env_or e ''POSTGRES_POOL_MIN'' ''2''),
      raw_poolMax = parseInt (env_or e ''POSTGRES_POOL_MAX'' ''10''),
      raw_poolIdleTimeout = parseInt (env_or e ''POSTGRES_POOL_IDLE_TIMEOUT'' ''30000''),
      raw_maxRows = parseInt (env_or e ''POSTGRES_MAX_ROWS'' ''1000'')\<rparr>"

definition finishConfig ::
  "ParsedConnection option \<Rightarrow> env \<Rightarrow> event list \<Rightarrow> (js_error + DatabaseConfig) \<times> event list" where
  "finishConfig parsedConnection e tr =
     (case DatabaseConfigSchema_parse (makeRawConfig parsedConnection e) of
        Some cfg \<Rightarrow> (Inr cfg, tr)
      | None \<Rightarrow> (Inl (DatabaseError ''Invalid database configuration'' None None),
                 tr @ [Logged LError ''Invalid database configuration'']))"

text \<open>
  \<open>loadConfig(connectionString)\<close>. The constructor \<open>URL_new\<close> of the runtime is a
  parameter: it gives the parsed URL or throws with a message. The second half of the
  function, from \<open>rawConfig\<close> on, is \<open>makeRawConfig\<close> and \<open>finishConfig\<close> above.
\<close>

definition loadConfig ::
  "(string \<Rightarrow> string + URL) \<Rightarrow> env \<Rightarrow> string option \<Rightarrow> event list
     \<Rightarrow> (js_error + DatabaseConfig) \<times> event list" where
  "loadConfig URL_new e connectionString tr =
     (case connectionString of
        None \<Rightarrow> finishConfig None e tr
      | Some cs \<Rightarrow>
          if cs = [] then finishConfig None e tr
          else (case URL_new cs of
                  Inl msg \<Rightarrow>
                    (Inl (Error (''Invalid connection string: '' @ msg)),
                     tr @ [Logged LError ''Failed to parse connection string''])
                | Inr url \<Rightarrow>
                    finishConfig
                      (Some \<lparr>pc_host = hostname url,
                             pc_port = (if url_port url \<noteq> [] then parseInt (url_port url) else Num 5432),
                             pc_database = drop 1 (pathname url),
                             pc_user = username url,
                             pc_password = url_password url\<rparr>)
                      e (tr @ [Logged LInfo ''Parsed connection string successfully''])))"

section \<open>Notions of the specification\<close>

text \<open>The statements a trace sent to the engine, in order, each with its bound parameters.\<close>

fun sent_statements :: "event list \<Rightarrow> (string \<times> js_value list option) list" where
  "sent_statements [] = []"
| "sent_statements (Sent s p # es) = (s, p) # sent_statements es"
| "sent_statements (Logged l m # es) = sent_statements es"
| "sent_statements (Acquired # es) = sent_statements es"
| "sent_statements (Released # es) = sent_statements es"
| "sent_statements (PoolEnded # es) = sent_statements es"

text \<open>
  The classifier as the specification words it (section 4.3): normalise, look for a
  forbidden phrase anywhere in the text, then decide on the leading token. The program has
  no such function; each handler has its own tests, and the theorems compare them with
  this one.
\<close>

datatype verdict = ReadOnly | Mutating | Forbidden string

definition spec_classify :: "string \<Rightarrow> verdict" where
  "spec_classify sqlText =
     (let t = toLowerCase (trim sqlText);
          leading = (case split_ws t of [] \<Rightarrow> [] | w # _ \<Rightarrow> w)
      in case find (\<lambda>phrase. js_includes t phrase)
                [''drop database'', ''drop schema'', ''drop user'', ''drop role'', ''shutdown'', ''restart''] of
           Some phrase \<Rightarrow> Forbidden phrase
         | None \<Rightarrow>
             if leading = ''select'' \<or> startsWith t ''with'' then ReadOnly
             else if leading \<in> set [''insert'', ''update'', ''delete'', ''create'', ''alter'', ''drop'',
                                     ''truncate'', ''grant'', ''revoke'']
             then Mutating
             else Forbidden ''unrecognized command'')"

section \<open>Example inputs\<close>

definition exampleConfig :: DatabaseConfig where
  "exampleConfig = \<lparr>host = ''localhost'', port = 5432, database = ''postgres'', user = ''postgres'',
     password = None, ssl = False, poolMin = 2, poolMax = 10, poolIdleTimeout = 30000,
     queryTimeout = 30000, maxRows = 1000\<rparr>"

definition emptyResult :: PgQueryResult where
  "emptyResult = \<lparr>pg_rows = [], pg_rowCount = Some 0, pg_command = ''SELECT'', pg_fields = Some []\<rparr>"

text \<open>A pool that hands out a client, answers every statement with no rows, and closes.\<close>

definition examplePool :: Pool where
  "examplePool = \<lparr>pool_connect = None, client_query = (\<lambda>s p. Inr emptyResult), pool_end = None\<rparr>"

definition exampleDb :: DatabaseManager where
  "exampleDb = \<lparr>config = exampleConfig, pool = examplePool\<rparr>"

text \<open>A pool with no client to hand out, whose engine refuses every statement and whose
  shutdown fails.\<close>

definition refused :: pg_error where
  "refused = PgError ''connection refused'' (Some ''ECONNREFUSED'') None"

definition syntaxError :: pg_error where
  "syntaxError = PgError ''syntax error at or near x'' (Some ''42601'') (Some ''position 1'')"

definition failingPool :: Pool where
  "failingPool = \<lparr>pool_connect = Some refused, client_query = (\<lambda>s p. Inl syntaxError),
     pool_end = Some refused\<rparr>"

definition rejectingPool :: Pool where
  "rejectingPool = \<lparr>pool_connect = None, client_query = (\<lambda>s p. Inl syntaxError),
     pool_end = Some refused\<rparr>"

definition failingDb :: DatabaseManager where
  "failingDb = \<lparr>config = exampleConfig, pool = failingPool\<rparr>"

definition rejectingDb :: DatabaseManager where
  "rejectingDb = \<lparr>config = exampleConfig, pool = rejectingPool\<rparr>"

text \<open>No connection string can be parsed by this stand-in for the runtime's \<open>URL\<close>.\<close>

definition noURL :: "string \<Rightarrow> string + URL" where
  "noURL s = Inl ''Invalid URL''"

definition noEnv :: env where
  "noEnv k = None"

text \<open>An environment that caps the rows at two, the configuration it resolves to, and a
  database whose engine answers every statement with three rows.\<close>

definition twoRowsEnv :: env where
  "twoRowsEnv k = (if k = ''POSTGRES_MAX_ROWS'' then Some ''2'' else None)"

definition twoRowsConfig :: DatabaseConfig where
  "twoRowsConfig = \<lparr>host = ''localhost'', port = 5432, database = ''postgres'', user = ''postgres'',
     password = None, ssl = False, poolMin = 2, poolMax = 10, poolIdleTimeout = 30000,
     queryTimeout = 30000, maxRows = 2\<rparr>"

definition threeRows :: PgQueryResult where
  "threeRows = \<lparr>pg_rows = [[(''id'', JNum 1)], [(''id'', JNum 2)], [(''id'', JNum 3)]],
     pg_rowCount = Some 3, pg_command = ''SELECT'', pg_fields = Some [''id'']\<rparr>"

definition threeRowsDb :: DatabaseManager where
  "threeRowsDb = \<lparr>config = twoRowsConfig,
     pool = \<lparr>pool_connect = None, client_query = (\<lambda>s p. Inr threeRows), pool_end = None\<rparr>\<rparr>"

text \<open>An environment with the pool's minimum above its maximum, and one whose port is no
  number.\<close>

definition bigMinEnv :: env where
  "bigMinEnv k = (if k = ''POSTGRES_POOL_MIN'' then Some ''20'' else None)"

definition badPortEnv :: env where
  "badPortEnv k = (if k = ''POSTGRES_PORT'' then Some ''abc'' else None)"

section \<open>The numeric variables of the environment\<close>


definition bigMinConfig :: DatabaseConfig where
  "bigMinConfig = \<lparr>host = ''localhost'', port = 5432, database = ''postgres'', user = ''postgres'',
     password = None, ssl = False, poolMin = 20, poolMax = 10, poolIdleTimeout = 30000,
     queryTimeout = 30000, maxRows = 1000\<rparr>"

section \<open>The create-table statement as the specification words it\<close>

text \<open>
  The create-table statement in words: \<open>CREATE TABLE\<close>, then \<open>IF NOT EXISTS\<close> when asked,
  the table's name, and in parentheses the columns, separated by a comma and a space, each
  one its name, a space, its type and, when present, a space and its constraints.
  \<open>claimed_createTableSQL\<close> follows these words: constraints are present when the
  field is there. \<open>amended_createTableSQL\<close> differs in one point: constraints count
  only when the field is there and is not the empty string.
\<close>

definition claimed_columnEntry :: "ColumnDefinition \<Rightarrow> string" where
  "claimed_columnEntry col =
     col_name col @ '' '' @ col_type col
     @ (case col_constraints col of None \<Rightarrow> [] | Some c \<Rightarrow> '' '' @ c)"

definition claimed_createTableSQL :: "string \<Rightarrow> ColumnDefinition list \<Rightarrow> bool \<Rightarrow> string" where
  "claimed_createTableSQL name cols ine =
     ''CREATE TABLE '' @ (if ine then ''IF NOT EXISTS '' else []) @ name
     @ '' ('' @ join (map claimed_columnEntry cols) '', '' @ '')''"

definition amended_columnEntry :: "ColumnDefinition \<Rightarrow> string" where
  "amended_columnEntry col =
     col_name col @ '' '' @ col_type col
     @ (case col_constraints col of None \<Rightarrow> [] | Some c \<Rightarrow> if c = [] then [] else '' '' @ c)"

definition amended_createTableSQL :: "string \<Rightarrow> ColumnDefinition list \<Rightarrow> bool \<Rightarrow> string" where
  "amended_createTableSQL name cols ine =
     ''CREATE TABLE '' @ (if ine then ''IF NOT EXISTS '' else []) @ name
     @ '' ('' @ join (map amended_columnEntry cols) '', '' @ '')''"

text \<open>
  The create-table inputs that pass validation: the table's name and every column's name
  are identifiers, there is a column, and no column's type is empty. Nothing is asked of
  the text of a type beyond that, and nothing of the constraints.
\<close>

definition passesValidation :: "CreateTableArgs \<Rightarrow> bool" where
  "passesValidation args =
     (validIdentifier (arg_tableName args) \<and> arg_columns args \<noteq> []
      \<and> list_all (\<lambda>col. validIdentifier (col_name col)) (arg_columns args)
      \<and> list_all (\<lambda>col. col_type col \<noteq> []) (arg_columns args))"

definition idColumn :: ColumnDefinition where
  "idColumn = \<lparr>col_name = ''id'', col_type = ''INT'', col_constraints = Some []\<rparr>"

definition nameColumn :: ColumnDefinition where
  "nameColumn = \<lparr>col_name = ''name'', col_type = ''VARCHAR(100)'', col_constraints = Some ''NOT NULL''\<rparr>"

definition spaceColumn :: ColumnDefinition where
  "spaceColumn = \<lparr>col_name = ''a b'', col_type = ''TEXT'', col_constraints = None\<rparr>"

definition usersArgs :: CreateTableArgs where
  "usersArgs = \<lparr>arg_tableName = ''users'', arg_columns = [idColumn, nameColumn], arg_ifNotExists = None\<rparr>"

definition badTableArgs :: CreateTableArgs where
  "badTableArgs = \<lparr>arg_tableName = ''1bad'', arg_columns = [nameColumn], arg_ifNotExists = None\<rparr>"

definition badColumnArgs :: CreateTableArgs where
  "badColumnArgs = \<lparr>arg_tableName = ''t'', arg_columns = [nameColumn, spaceColumn], arg_ifNotExists = Some False\<rparr>"

section \<open>Which variables the resolved configuration depends on\<close>







text \<open>Create-table inputs of the wrong shape: a bad table name with no column, and an
  empty table name with a column whose name is empty.\<close>

definition noColumnArgs :: CreateTableArgs where
  "noColumnArgs = \<lparr>arg_tableName = ''1bad'', arg_columns = [], arg_ifNotExists = None\<rparr>"

definition emptyColumn :: ColumnDefinition where
  "emptyColumn = \<lparr>col_name = [], col_type = ''TEXT'', col_constraints = None\<rparr>"

definition emptyNamesArgs :: CreateTableArgs where
  "emptyNamesArgs = \<lparr>arg_tableName = [], arg_columns = [nameColumn, emptyColumn], arg_ifNotExists = None\<rparr>"


section \<open>Facts about the string functions\<close>

lemma js_includes_nonempty: "js_includes s p \<Longrightarrow> p \<noteq> [] \<Longrightarrow> s \<noteq> []"
  by (cases s) auto

lemma trim_Nil [simp]: "trim [] = []"
  by (simp add: trim_def)

lemma toLowerCase_Nil [simp]: "toLowerCase [] = []"
  by (simp add: toLowerCase_def)

lemma startsWith_Nil [simp]: "p \<noteq> [] \<Longrightarrow> \<not> startsWith [] p"
  by (auto simp: startsWith_def)

lemma dangerous_nonempty: "d \<in> set DANGEROUS_COMMANDS \<Longrightarrow> d \<noteq> []"
  by (auto simp: DANGEROUS_COMMANDS_def)

lemma find_dangerous:
  assumes "d \<in> set DANGEROUS_COMMANDS" "js_includes t d"
  obtains d' where "find (\<lambda>c. js_includes t c) DANGEROUS_COMMANDS = Some d'"
    "d' \<in> set DANGEROUS_COMMANDS" "js_includes t d'"
proof -
  from assms have "find (\<lambda>c. js_includes t c) DANGEROUS_COMMANDS \<noteq> None"
    by (auto simp: find_None_iff)
  then obtain d' where f: "find (\<lambda>c. js_includes t c) DANGEROUS_COMMANDS = Some d'" by auto
  then have "d' \<in> set DANGEROUS_COMMANDS \<and> js_includes t d'"
    by (auto simp: find_Some_iff)
  with f that show thesis by blast
qed

section \<open>The mutate-execute operation\<close>

text \<open>
  Claim C2. Whenever the trimmed, lowercased text of the call contains one of the phrases
  of \<open>DANGEROUS_COMMANDS\<close> anywhere, \<open>handleExecute\<close> answers with the error
  \<open>Validation Error: Dangerous command detected: d'. ...\<close>, where \<open>d'\<close> is the first
  phrase of the list that the text contains. The trace gains the handler's two log lines
  and nothing else: no client is taken and no statement is sent. Nothing in the statement
  depends on the leading word, which the handler reads only after this check.
\<close>

theorem handleExecute_dangerous:
  assumes "d \<in> set DANGEROUS_COMMANDS"
      and "js_includes (toLowerCase (trim (query args))) d"
  shows "\<exists>d'. find (\<lambda>c. js_includes (toLowerCase (trim (query args))) c) DANGEROUS_COMMANDS = Some d'
           \<and> js_includes (toLowerCase (trim (query args))) d'
           \<and> handleExecute db args tr =
               (\<lparr>content_text = ''Validation Error: Dangerous command detected: '' @ d'
                    @ ''. This operation is not allowed for security reasons.'',
                 isError = True\<rparr>,
                tr @ [Logged LInfo ''Executing command tool'', Logged LError ''Execute tool error''])"
proof -
  let ?t = "toLowerCase (trim (query args))"
  from assms obtain d' where f: "find (\<lambda>c. js_includes ?t c) DANGEROUS_COMMANDS = Some d'"
    and inc: "js_includes ?t d'"
    by (rule find_dangerous)
  have "?t \<noteq> []"
    using assms js_includes_nonempty dangerous_nonempty by blast
  then have "query args \<noteq> []" by auto
  then have p: "ExecuteParamsSchema_parse args = Inr args"
    by (simp add: ExecuteParamsSchema_parse_def)
  have "handleExecute db args tr =
      (\<lparr>content_text = ''Validation Error: Dangerous command detected: '' @ d'
           @ ''. This operation is not allowed for security reasons.'',
        isError = True\<rparr>,
       tr @ [Logged LInfo ''Executing command tool'', Logged LError ''Execute tool error''])"
    by (simp add: handleExecute_def p f caught_def Let_def)
  with f inc show ?thesis by blast
qed

text \<open>The witness is a delete with a second statement behind it: the leading word is an
  allowed one, and the phrase is found all the same.\<close>

theorem handleExecute_dangerous_witness:
  "''drop database'' \<in> set DANGEROUS_COMMANDS
   \<and> js_includes (toLowerCase (trim (query \<lparr>query = ''DELETE FROM t; Drop Database x'', params = None\<rparr>)))
         ''drop database''
   \<and> handleExecute exampleDb \<lparr>query = ''DELETE FROM t; Drop Database x'', params = None\<rparr> [] =
         (\<lparr>content_text = ''Validation Error: Dangerous command detected: drop database. This operation is not allowed for security reasons.'',
           isError = True\<rparr>,
          [Logged LInfo ''Executing command tool'', Logged LError ''Execute tool error''])"
proof -
  let ?a = "\<lparr>query = ''DELETE FROM t; Drop Database x'', params = None\<rparr>"
  have h1: "''drop database'' \<in> set DANGEROUS_COMMANDS"
    by (simp add: DANGEROUS_COMMANDS_def)
  have h2: "js_includes (toLowerCase (trim (query ?a))) ''drop database''"
    by code_simp
  have f: "find (\<lambda>c. js_includes (toLowerCase (trim (query ?a))) c) DANGEROUS_COMMANDS
             = Some ''drop database''"
    by code_simp
  from handleExecute_dangerous [OF h1 h2, of exampleDb "[]"] f h1 h2
  show ?thesis by simp
qed

text \<open>
  Claim C4. The claim asks that a read-only statement sent to the mutate-execute operation
  be refused with a message that points to the read-query tool. \<open>handleExecute\<close> has
  that message, but tests the allow-list first: for \<open>select 1\<close> the leading word
  \<open>select\<close> is not in \<open>ALLOWED_COMMANDS\<close>, and the answer is the allow-list's
  message, which names no tool to use instead.
\<close>

theorem handleExecute_select_1:
  "handleExecute db \<lparr>query = ''select 1'', params = None\<rparr> tr =
     (\<lparr>content_text = ''Validation Error: Command '' @ sq @ ''select'' @ sq
          @ '' is not allowed. Allowed commands: insert, update, delete, create, alter, drop, truncate, grant, revoke'',
       isError = True\<rparr>,
      tr @ [Logged LInfo ''Executing command tool'', Logged LError ''Execute tool error''])"
  by code_simp simp

text \<open>The same call on the example database, with the point the claim makes: the answer
  does not mention the read-query tool \<open>postgresql_query\<close>.\<close>

theorem handleExecute_select_1_witness:
  "isError (fst (handleExecute exampleDb \<lparr>query = ''select 1'', params = None\<rparr> []))
   \<and> \<not> js_includes (content_text (fst (handleExecute exampleDb \<lparr>query = ''select 1'', params = None\<rparr> [])))
           ''postgresql_query''
   \<and> snd (handleExecute exampleDb \<lparr>query = ''select 1'', params = None\<rparr> []) =
         [Logged LInfo ''Executing command tool'', Logged LError ''Execute tool error'']"
proof -
  have "\<not> js_includes (''Validation Error: Command '' @ sq @ ''select'' @ sq
          @ '' is not allowed. Allowed commands: insert, update, delete, create, alter, drop, truncate, grant, revoke'')
          ''postgresql_query''"
    by code_simp
  then show ?thesis
    using handleExecute_select_1 [of exampleDb "[]"] by simp
qed

section \<open>Facts about the trace\<close>

lemma sent_statements_append [simp]:
  "sent_statements (a @ b) = sent_statements a @ sent_statements b"
  by (induction a rule: sent_statements.induct) auto

lemma sent_DatabaseManager_query:
  "sent_statements (snd (DatabaseManager_query db s p tr)) =
     sent_statements tr @ (if pool_connect (pool db) = None then [(s, p)] else [])"
  by (auto simp: DatabaseManager_query_def Let_def split: option.splits sum.splits)

lemma sent_DatabaseManager_execute:
  "sent_statements (snd (DatabaseManager_execute db s p tr)) =
     sent_statements tr @ (if pool_connect (pool db) = None then [(s, p)] else [])"
  by (auto simp: DatabaseManager_execute_def Let_def split: option.splits sum.splits)

lemma sent_caught [simp]: "sent_statements (snd (caught l m tr)) = sent_statements tr"
  by (simp add: caught_def)

section \<open>The read-query operation\<close>

text \<open>
  Claim C1, as the code has it. \<open>handleQuery\<close> has one test: the trimmed, lowercased text
  begins with \<open>select\<close> or with \<open>with\<close>. It is a test of the first characters, not of
  the leading token, and no list of forbidden phrases is consulted. The statement of the
  call is sent exactly when the test passes and the pool hands out a client, and nothing
  else is ever sent; a non-empty text that fails the test is answered with the fixed
  message below, which names the two statements the tool supports and no other tool.
\<close>

theorem handleQuery_prefix_test:
  "sent_statements (snd (handleQuery J db args tr)) =
     sent_statements tr @
       (if (startsWith (toLowerCase (trim (query args))) ''select''
            \<or> startsWith (toLowerCase (trim (query args))) ''with'')
           \<and> pool_connect (pool db) = None
        then [(query args, params args)] else [])
   \<and> (query args \<noteq> [] \<and> \<not> startsWith (toLowerCase (trim (query args))) ''select''
        \<and> \<not> startsWith (toLowerCase (trim (query args))) ''with''
       \<longrightarrow> handleQuery J db args tr =
             (\<lparr>content_text = ''Validation Error: Query tool only supports SELECT and WITH statements for security reasons'',
               isError = True\<rparr>,
              tr @ [Logged LInfo ''Executing query tool'', Logged LError ''Query tool error'']))"
proof (cases "query args = []")
  case True
  then show ?thesis
    by (simp add: handleQuery_def QueryParamsSchema_parse_def)
next
  case False
  then have p: "QueryParamsSchema_parse args = Inr args"
    by (simp add: QueryParamsSchema_parse_def)
  show ?thesis
  proof (cases "startsWith (toLowerCase (trim (query args))) ''select''
            \<or> startsWith (toLowerCase (trim (query args))) ''with''")
    case True
    obtain r tr2 where q: "DatabaseManager_query db (query args) (params args)
        (tr @ [Logged LInfo ''Executing query tool'']) = (r, tr2)"
      by (cases "DatabaseManager_query db (query args) (params args)
        (tr @ [Logged LInfo ''Executing query tool''])") auto
    have "sent_statements tr2 = sent_statements tr @
        (if pool_connect (pool db) = None then [(query args, params args)] else [])"
      using sent_DatabaseManager_query [of db "query args" "params args"
          "tr @ [Logged LInfo ''Executing query tool'']"] q
      by simp
    with True p q show ?thesis
      by (cases r) (auto simp: handleQuery_def Let_def)
  next
    case False
    with p show ?thesis
      by (simp add: handleQuery_def Let_def caught_def)
  qed
qed

theorem handleQuery_prefix_test_witness:
  "sent_statements (snd (handleQuery (\<lambda>rs. []) exampleDb \<lparr>query = '' Select 1'', params = None\<rparr> []))
     = [('' Select 1'', None)]
   \<and> handleQuery (\<lambda>rs. []) exampleDb \<lparr>query = ''insert into t values (1)'', params = None\<rparr> [] =
       (\<lparr>content_text = ''Validation Error: Query tool only supports SELECT and WITH statements for security reasons'',
         isError = True\<rparr>,
        [Logged LInfo ''Executing query tool'', Logged LError ''Query tool error''])"
proof -
  have a: "startsWith (toLowerCase (trim '' Select 1'')) ''select''" by code_simp
  have b: "\<not> startsWith (toLowerCase (trim ''insert into t values (1)'')) ''select''"
          "\<not> startsWith (toLowerCase (trim ''insert into t values (1)'')) ''with''"
    by code_simp+
  have c: "pool_connect (pool exampleDb) = None"
    by (simp add: exampleDb_def examplePool_def)
  show ?thesis
    using handleQuery_prefix_test [of "\<lambda>rs. []" exampleDb "\<lparr>query = '' Select 1'', params = None\<rparr>" "[]"]
      handleQuery_prefix_test [of "\<lambda>rs. []" exampleDb "\<lparr>query = ''insert into t values (1)'', params = None\<rparr>" "[]"]
      a b c
    by simp
qed

text \<open>
  Claim C1 as the specification states it fails on three inputs. \<open>select restart\<close>
  contains a forbidden phrase, so the specification's classifier says \<open>Forbidden\<close>, and
  \<open>selectx\<close> has a leading token that is neither \<open>select\<close> nor begins with \<open>with\<close>:
  \<open>handleQuery\<close> sends both to the engine. And the answer to an insert does not direct
  the caller to the mutating tool \<open>postgresql_execute\<close>.
\<close>

theorem handleQuery_prefix_test_counterexample:
  "spec_classify ''select restart'' = Forbidden ''restart''
   \<and> sent_statements (snd (handleQuery (\<lambda>rs. []) exampleDb \<lparr>query = ''select restart'', params = None\<rparr> []))
       = [(''select restart'', None)]
   \<and> spec_classify ''selectx'' = Forbidden ''unrecognized command''
   \<and> sent_statements (snd (handleQuery (\<lambda>rs. []) exampleDb \<lparr>query = ''selectx'', params = None\<rparr> []))
       = [(''selectx'', None)]
   \<and> spec_classify ''insert into t values (1)'' = Mutating
   \<and> content_text (fst (handleQuery (\<lambda>rs. []) exampleDb \<lparr>query = ''insert into t values (1)'', params = None\<rparr> []))
       = ''Validation Error: Query tool only supports SELECT and WITH statements for security reasons''
   \<and> \<not> js_includes ''Validation Error: Query tool only supports SELECT and WITH statements for security reasons''
         ''postgresql_execute''"
  by code_simp

section \<open>Facts about the configuration\<close>

lemma schema_parse_positive:
  assumes "DatabaseConfigSchema_parse raw = Some cfg"
  shows "0 < port cfg \<and> 0 < poolMin cfg \<and> 0 < poolMax cfg \<and> 0 < poolIdleTimeout cfg
         \<and> 0 < queryTimeout cfg \<and> 0 < maxRows cfg"
proof -
  have pos: "\<And>x n. positiveInt x = Some n \<Longrightarrow> 0 < n"
    subgoal for x n by (cases x) (auto split: if_splits)
    done
  from assms show ?thesis
    by (auto simp: DatabaseConfigSchema_parse_def split: option.splits dest!: pos)
qed

lemma finishConfig_positive:
  assumes "fst (finishConfig pc e tr) = Inr cfg"
  shows "0 < port cfg \<and> 0 < poolMin cfg \<and> 0 < poolMax cfg \<and> 0 < poolIdleTimeout cfg
         \<and> 0 < queryTimeout cfg \<and> 0 < maxRows cfg"
  using assms schema_parse_positive [of "makeRawConfig pc e" cfg]
  by (auto simp: finishConfig_def split: option.splits)

lemma loadConfig_positive:
  assumes "fst (loadConfig U e cs tr) = Inr cfg"
  shows "0 < port cfg \<and> 0 < poolMin cfg \<and> 0 < poolMax cfg \<and> 0 < poolIdleTimeout cfg
         \<and> 0 < queryTimeout cfg \<and> 0 < maxRows cfg"
  using assms
  by (auto simp: loadConfig_def split: option.splits if_splits sum.splits
           dest: finishConfig_positive)

lemma parseInt_defaults:
  "parseInt ''5432'' = Num 5432" "parseInt ''10000'' = Num 10000" "parseInt ''30000'' = Num 30000"
  "parseInt ''10'' = Num 10" "parseInt ''2'' = Num 2" "parseInt ''1000'' = Num 1000"
  "parseInt ''20'' = Num 20" "parseInt ''abc'' = NaN"
  by (simp_all add: parseInt_def isWhiteSpace_def isDigit_def digitsValue_def)

lemma env_or_twoRowsEnv:
  "env_or twoRowsEnv k d = (if k = ''POSTGRES_MAX_ROWS'' then ''2'' else d)"
  by (simp add: env_or_def twoRowsEnv_def)

lemma loadConfig_twoRowsEnv: "fst (loadConfig noURL twoRowsEnv None []) = Inr twoRowsConfig"
  by (simp add: loadConfig_def finishConfig_def makeRawConfig_def env_or_twoRowsEnv parseInt_defaults
      DatabaseConfigSchema_parse_def pc_string_def or_else_def twoRowsConfig_def twoRowsEnv_def)

section \<open>The pool manager\<close>

text \<open>
  Claim C9. Whatever the engine answers, a call of \<open>query()\<close> or \<open>execute()\<close> that
  got a client from the pool adds to the trace exactly one acquisition and exactly one
  release; the acquisition is the first thing the call does and the release the last. The
  statement does not look at the outcome, so it holds for a call that returns and for one
  that throws. A call that got no client releases nothing.
\<close>

theorem connection_released_once:
  "(\<exists>es. snd (DatabaseManager_query db s p tr) = tr @ es
        \<and> (if pool_connect (pool db) = None
            then count_list es Acquired = 1 \<and> count_list es Released = 1
                 \<and> hd es = Acquired \<and> last es = Released
            else es = []))
   \<and> (\<exists>es. snd (DatabaseManager_execute db s p tr) = tr @ es
        \<and> (if pool_connect (pool db) = None
            then count_list es Acquired = 1 \<and> count_list es Released = 1
                 \<and> hd es = Acquired \<and> last es = Released
            else es = []))"
  by (auto simp: DatabaseManager_query_def DatabaseManager_execute_def Let_def
           split: option.splits sum.splits)

text \<open>The witness is a call whose statement the engine refuses: the call throws, and the
  client is released once.\<close>

theorem connection_released_once_witness:
  "(\<exists>e. fst (DatabaseManager_query rejectingDb ''selec 1'' None []) = Inl e)
   \<and> (\<exists>es. snd (DatabaseManager_query rejectingDb ''selec 1'' None []) = es
         \<and> count_list es Acquired = 1 \<and> count_list es Released = 1
         \<and> hd es = Acquired \<and> last es = Released)
   \<and> (\<exists>es. snd (DatabaseManager_execute rejectingDb ''selec 1'' None []) = es
         \<and> count_list es Acquired = 1 \<and> count_list es Released = 1
         \<and> hd es = Acquired \<and> last es = Released)"
proof -
  have c: "pool_connect (pool rejectingDb) = None"
    by (simp add: rejectingDb_def rejectingPool_def)
  have f: "\<exists>e. fst (DatabaseManager_query rejectingDb ''selec 1'' None []) = Inl e"
    by (simp add: DatabaseManager_query_def rejectingDb_def rejectingPool_def)
  show ?thesis
    using connection_released_once [of rejectingDb "''selec 1''" None "[]"] c f
    by simp
qed

text \<open>
  Claim C7. For a database manager whose configuration \<open>loadConfig\<close> returned, a call of
  \<open>query()\<close> that returns has at most \<open>maxRows\<close> rows: the first \<open>maxRows\<close> rows of
  the engine's answer. When the engine's answer had more, the call has logged the warning
  \<open>Query returned n rows, limited to maxRows\<close>.
\<close>

theorem query_rows_bounded:
  assumes "fst (loadConfig U e cs tr0) = Inr (config db)"
      and "fst (DatabaseManager_query db s p tr) = Inr r"
  shows "int (length (rows r)) \<le> maxRows (config db)
     \<and> (\<exists>res. client_query (pool db) s p = Inr res
           \<and> rows r = take (nat (maxRows (config db))) (pg_rows res)
           \<and> (int (length (pg_rows res)) > maxRows (config db) \<longrightarrow>
                Logged LWarn (''Query returned '' @ string_of_nat (length (pg_rows res))
                    @ '' rows, limited to '' @ string_of_int (maxRows (config db)))
                  \<in> set (drop (length tr) (snd (DatabaseManager_query db s p tr)))))"
proof -
  have pos: "0 < maxRows (config db)"
    using loadConfig_positive [OF assms(1)] by simp
  from assms(2) obtain res where res: "client_query (pool db) s p = Inr res"
    and c: "pool_connect (pool db) = None"
    by (auto simp: DatabaseManager_query_def Let_def split: option.splits sum.splits)
  from assms(2) res c have r: "rows r = take (nat (maxRows (config db))) (pg_rows res)"
    using pos by (auto simp: DatabaseManager_query_def Let_def slice0_def)
  have "int (length (rows r)) \<le> maxRows (config db)"
    using r pos by simp
  moreover have "int (length (pg_rows res)) > maxRows (config db) \<longrightarrow>
                Logged LWarn (''Query returned '' @ string_of_nat (length (pg_rows res))
                    @ '' rows, limited to '' @ string_of_int (maxRows (config db)))
                  \<in> set (drop (length tr) (snd (DatabaseManager_query db s p tr)))"
    using res c by (simp add: DatabaseManager_query_def Let_def)
  ultimately show ?thesis using res r by blast
qed

text \<open>The witness: the environment caps the rows at two and the engine answers with three.\<close>

theorem query_rows_bounded_witness:
  "fst (loadConfig noURL twoRowsEnv None []) = Inr (config threeRowsDb)
   \<and> fst (DatabaseManager_query threeRowsDb ''select * from t'' None []) =
        Inr \<lparr>rows = [[(''id'', JNum 1)], [(''id'', JNum 2)]], rowCount = 3, result_fields = Some [''id'']\<rparr>
   \<and> int (length (rows \<lparr>rows = [[(''id'', JNum 1)], [(''id'', JNum 2)]], rowCount = 3,
                          result_fields = Some [''id'']\<rparr>)) \<le> maxRows (config threeRowsDb)
   \<and> Logged LWarn ''Query returned 3 rows, limited to 2''
        \<in> set (snd (DatabaseManager_query threeRowsDb ''select * from t'' None []))"
proof -
  let ?r = "\<lparr>rows = [[(''id'', JNum 1)], [(''id'', JNum 2)]], rowCount = 3, result_fields = Some [''id'']\<rparr>"
  have h1: "fst (loadConfig noURL twoRowsEnv None []) = Inr (config threeRowsDb)"
    using loadConfig_twoRowsEnv by (simp add: threeRowsDb_def)
  have n: "string_of_nat 3 = ''3''" "string_of_int 2 = ''2''"
    by code_simp+
  have n3: "string_of_nat (Suc (Suc (Suc 0))) = ''3''"
    using n(1) by (simp add: numeral_3_eq_3)
  have h2: "fst (DatabaseManager_query threeRowsDb ''select * from t'' None []) = Inr ?r"
    by (simp add: DatabaseManager_query_def threeRowsDb_def threeRows_def twoRowsConfig_def
          slice0_def Let_def)
  have w: "Logged LWarn ''Query returned 3 rows, limited to 2''
        \<in> set (snd (DatabaseManager_query threeRowsDb ''select * from t'' None []))"
    by (simp add: DatabaseManager_query_def threeRowsDb_def threeRows_def twoRowsConfig_def
          slice0_def Let_def n n3)
  from query_rows_bounded [OF h1 h2] have "int (length (rows ?r)) \<le> maxRows (config threeRowsDb)"
    by blast
  with h1 h2 w show ?thesis by blast
qed

text \<open>
  Claim C3, as the code has it. \<open>query()\<close> and \<open>execute()\<close> take the client before their
  \<open>try\<close> block: when \<open>pool.connect()\<close> throws, the driver's exception reaches the caller
  as it is and nothing is logged. A statement that the engine refuses is thrown again as a
  \<open>DatabaseError\<close> with the engine's message (a fixed one when that is empty), code and
  detail. \<open>close()\<close> throws a \<open>DatabaseError\<close> with a fixed message and neither code nor
  detail when \<open>pool.end()\<close> fails. In every other case the three operations return.
\<close>

theorem pool_manager_errors:
  "(\<forall>pe. pool_connect (pool db) = Some pe \<longrightarrow>
       DatabaseManager_query db s p tr = (Inl (DriverException pe), tr)
       \<and> DatabaseManager_execute db s p tr = (Inl (DriverException pe), tr))
   \<and> (\<forall>pe. pool_connect (pool db) = None \<and> client_query (pool db) s p = Inl pe \<longrightarrow>
       fst (DatabaseManager_query db s p tr) =
         Inl (DatabaseError (or_else (pg_message pe) ''Query execution failed'') (pg_code pe) (pg_detail pe))
       \<and> fst (DatabaseManager_execute db s p tr) =
         Inl (DatabaseError (or_else (pg_message pe) ''Command execution failed'') (pg_code pe) (pg_detail pe)))
   \<and> (\<forall>res. pool_connect (pool db) = None \<and> client_query (pool db) s p = Inr res \<longrightarrow>
       (\<exists>r. fst (DatabaseManager_query db s p tr) = Inr r)
       \<and> (\<exists>r. fst (DatabaseManager_execute db s p tr) = Inr r))
   \<and> (\<forall>pe. pool_end (pool db) = Some pe \<longrightarrow>
       fst (DatabaseManager_close db tr) =
         Inl (DatabaseError ''Failed to close database connection pool'' None None))
   \<and> (pool_end (pool db) = None \<longrightarrow> fst (DatabaseManager_close db tr) = Inr ())"
  by (auto simp: DatabaseManager_query_def DatabaseManager_execute_def DatabaseManager_close_def
        Let_def split: option.splits sum.splits)

theorem pool_manager_errors_witness:
  "fst (DatabaseManager_query rejectingDb ''selec 1'' None []) =
     Inl (DatabaseError ''syntax error at or near x'' (Some ''42601'') (Some ''position 1''))
   \<and> fst (DatabaseManager_execute rejectingDb ''selec 1'' None []) =
     Inl (DatabaseError ''syntax error at or near x'' (Some ''42601'') (Some ''position 1''))
   \<and> fst (DatabaseManager_close rejectingDb []) =
     Inl (DatabaseError ''Failed to close database connection pool'' None None)
   \<and> DatabaseManager_execute failingDb ''delete from t'' None [] = (Inl (DriverException refused), [])
   \<and> (\<exists>r. fst (DatabaseManager_query exampleDb ''select 1'' None []) = Inr r)
   \<and> fst (DatabaseManager_close exampleDb []) = Inr ()"
proof -
  have a: "pool_connect (pool rejectingDb) = None"
          "client_query (pool rejectingDb) ''selec 1'' None = Inl syntaxError"
          "pool_end (pool rejectingDb) = Some refused"
    by (simp_all add: rejectingDb_def rejectingPool_def)
  have b: "pool_connect (pool failingDb) = Some refused"
    by (simp add: failingDb_def failingPool_def)
  have c: "pool_connect (pool exampleDb) = None"
          "client_query (pool exampleDb) ''select 1'' None = Inr emptyResult"
          "pool_end (pool exampleDb) = None"
    by (simp_all add: exampleDb_def examplePool_def)
  show ?thesis
    using pool_manager_errors [of rejectingDb "''selec 1''" None "[]"]
      pool_manager_errors [of failingDb "''delete from t''" None "[]"]
      pool_manager_errors [of exampleDb "''select 1''" None "[]"]
      a b c
    by (simp add: syntaxError_def or_else_def)
qed

text \<open>
  Claim C3 as the specification states it fails twice. With no client to hand out,
  \<open>query()\<close> lets the driver's exception through, which is no \<open>DatabaseError\<close>. And
  when \<open>pool.end()\<close> fails with a code, the \<open>DatabaseError\<close> of \<open>close()\<close> has none.
\<close>

theorem pool_manager_errors_counterexample:
  "pool_connect (pool failingDb) = Some refused
   \<and> fst (DatabaseManager_query failingDb ''select 1'' None []) = Inl (DriverException refused)
   \<and> pool_end (pool failingDb) = Some refused
   \<and> pg_code refused = Some ''ECONNREFUSED''
   \<and> fst (DatabaseManager_close failingDb []) =
        Inl (DatabaseError ''Failed to close database connection pool'' None None)"
  by (simp add: DatabaseManager_query_def DatabaseManager_close_def failingDb_def failingPool_def
        refused_def)

section \<open>More facts about the configuration\<close>



lemma schema_parse_None_iff:
  "DatabaseConfigSchema_parse raw = None \<longleftrightarrow>
     positiveInt (raw_port raw) = None \<or> positiveInt (raw_poolMin raw) = None
     \<or> positiveInt (raw_poolMax raw) = None \<or> positiveInt (raw_poolIdleTimeout raw) = None
     \<or> positiveInt (raw_queryTimeout raw) = None \<or> positiveInt (raw_maxRows raw) = None"
  by (auto simp: DatabaseConfigSchema_parse_def split: option.splits)




text \<open>What \<open>makeRawConfig\<close> reads for a numeric variable of the schema.\<close>

lemma raw_numbers:
  "raw_queryTimeout (makeRawConfig pc e) = parseInt (env_or e ''POSTGRES_QUERY_TIMEOUT'' ''30000'')"
  "raw_poolMin (makeRawConfig pc e) = parseInt (env_or e ''POSTGRES_POOL_MIN'' ''2'')"
  "raw_poolMax (makeRawConfig pc e) = parseInt (env_or e ''POSTGRES_POOL_MAX'' ''10'')"
  "raw_poolIdleTimeout (makeRawConfig pc e) = parseInt (env_or e ''POSTGRES_POOL_IDLE_TIMEOUT'' ''30000'')"
  "raw_maxRows (makeRawConfig pc e) = parseInt (env_or e ''POSTGRES_MAX_ROWS'' ''1000'')"
  "raw_port (makeRawConfig None e) = parseInt (env_or e ''POSTGRES_PORT'' ''5432'')"
  by (simp_all add: makeRawConfig_def)



lemma env_or_noEnv [simp]: "env_or noEnv k d = d"
  by (simp add: env_or_def noEnv_def)

lemma env_or_bigMinEnv:
  "env_or bigMinEnv k d = (if k = ''POSTGRES_POOL_MIN'' then ''20'' else d)"
  by (simp add: env_or_def bigMinEnv_def)

lemma env_or_badPortEnv:
  "env_or badPortEnv k d = (if k = ''POSTGRES_PORT'' then ''abc'' else d)"
  by (simp add: env_or_def badPortEnv_def)

lemma loadConfig_noEnv: "loadConfig noURL noEnv None [] = (Inr exampleConfig, [])"
  by (simp add: loadConfig_def finishConfig_def makeRawConfig_def parseInt_defaults
      DatabaseConfigSchema_parse_def pc_string_def or_else_def exampleConfig_def noEnv_def)

lemma loadConfig_bigMinEnv: "loadConfig noURL bigMinEnv None [] = (Inr bigMinConfig, [])"
  by (simp add: loadConfig_def finishConfig_def makeRawConfig_def env_or_bigMinEnv parseInt_defaults
      DatabaseConfigSchema_parse_def pc_string_def or_else_def bigMinConfig_def bigMinEnv_def)


section \<open>Facts about the variables that are read\<close>











section \<open>Configuration resolution\<close>

text \<open>
  Claim C5, as the code has it. Every configuration that \<open>loadConfig\<close> returns has its
  six numbers (port, pool minimum, pool maximum, idle timeout, query timeout, row cap)
  strictly positive, and a raw configuration in which one of the six is not a positive
  integer is rejected: the schema throws, and \<open>loadConfig\<close> throws the \<open>DatabaseError\<close>
  \<open>Invalid database configuration\<close>. The schema does not compare the pool's minimum with
  its maximum.
\<close>

theorem loadConfig_numbers_positive:
  "(fst (loadConfig U e cs tr) = Inr cfg \<longrightarrow>
       0 < port cfg \<and> 0 < poolMin cfg \<and> 0 < poolMax cfg \<and> 0 < poolIdleTimeout cfg
       \<and> 0 < queryTimeout cfg \<and> 0 < maxRows cfg)
   \<and> (list_ex (\<lambda>x. positiveInt x = None)
          [raw_port raw, raw_poolMin raw, raw_poolMax raw, raw_poolIdleTimeout raw,
           raw_queryTimeout raw, raw_maxRows raw]
        \<longrightarrow> DatabaseConfigSchema_parse raw = None)
   \<and> (DatabaseConfigSchema_parse (makeRawConfig pc e') = None \<longrightarrow>
        finishConfig pc e' tr' =
          (Inl (DatabaseError ''Invalid database configuration'' None None),
           tr' @ [Logged LError ''Invalid database configuration'']))"
proof (intro conjI impI)
  assume "fst (loadConfig U e cs tr) = Inr cfg"
  then show "0 < port cfg" "0 < poolMin cfg" "0 < poolMax cfg" "0 < poolIdleTimeout cfg"
    "0 < queryTimeout cfg" "0 < maxRows cfg"
    using loadConfig_positive by blast+
next
  assume "list_ex (\<lambda>x. positiveInt x = None)
          [raw_port raw, raw_poolMin raw, raw_poolMax raw, raw_poolIdleTimeout raw,
           raw_queryTimeout raw, raw_maxRows raw]"
  then show "DatabaseConfigSchema_parse raw = None"
    by (auto simp: schema_parse_None_iff)
next
  assume "DatabaseConfigSchema_parse (makeRawConfig pc e') = None"
  then show "finishConfig pc e' tr' =
          (Inl (DatabaseError ''Invalid database configuration'' None None),
           tr' @ [Logged LError ''Invalid database configuration''])"
    by (simp add: finishConfig_def)
qed

text \<open>The witness: the empty environment resolves to the defaults, all positive, and a
  port that is no number is rejected.\<close>

theorem loadConfig_numbers_positive_witness:
  "fst (loadConfig noURL noEnv None []) = Inr exampleConfig
   \<and> 0 < port exampleConfig \<and> 0 < poolMin exampleConfig \<and> 0 < poolMax exampleConfig
   \<and> 0 < poolIdleTimeout exampleConfig \<and> 0 < queryTimeout exampleConfig \<and> 0 < maxRows exampleConfig
   \<and> positiveInt (raw_port (makeRawConfig None badPortEnv)) = None
   \<and> DatabaseConfigSchema_parse (makeRawConfig None badPortEnv) = None
   \<and> finishConfig None badPortEnv [] =
        (Inl (DatabaseError ''Invalid database configuration'' None None),
         [Logged LError ''Invalid database configuration''])"
proof -
  have a: "fst (loadConfig noURL noEnv None []) = Inr exampleConfig"
    by (simp add: loadConfig_noEnv)
  have b: "positiveInt (raw_port (makeRawConfig None badPortEnv)) = None"
    by (simp add: raw_numbers env_or_badPortEnv parseInt_defaults)
  from loadConfig_numbers_positive [where U = noURL and e = noEnv and cs = None and tr = "[]"
      and cfg = exampleConfig and raw = "makeRawConfig None badPortEnv" and pc = None
      and e' = badPortEnv and tr' = "[]"] a b
  show ?thesis by simp
qed

text \<open>
  Claim C5 as the specification states it asks for \<open>poolMin \<le> poolMax\<close> as well. With
  \<open>POSTGRES_POOL_MIN=20\<close> and nothing else set, \<open>loadConfig\<close> returns a configuration
  with a minimum of 20 and the default maximum of 10.
\<close>

theorem loadConfig_numbers_positive_counterexample:
  "fst (loadConfig noURL bigMinEnv None []) = Inr bigMinConfig
   \<and> poolMin bigMinConfig = 20 \<and> poolMax bigMinConfig = 10
   \<and> \<not> poolMin bigMinConfig \<le> poolMax bigMinConfig"
  by (simp add: loadConfig_bigMinEnv bigMinConfig_def)








section \<open>Facts about the table handlers\<close>

lemma columnIssues_Nil: "columnIssues i col = [] \<longleftrightarrow> col_name col \<noteq> [] \<and> col_type col \<noteq> []"
  by (simp add: columnIssues_def)

lemma all_columnIssues_Nil:
  "concat (map (\<lambda>(i, col). columnIssues i col) (zip [n ..< n + length cols] cols)) = []
     \<longleftrightarrow> list_all (\<lambda>col. col_name col \<noteq> [] \<and> col_type col \<noteq> []) cols"
proof (induction cols arbitrary: n)
  case Nil
  then show ?case by simp
next
  case (Cons c cs)
  have "[n ..< n + length (c # cs)] = n # [Suc n ..< Suc n + length cs]"
    using upt_rec [of n "n + length (c # cs)"] by simp
  with Cons [of "Suc n"] show ?case
    by (simp add: columnIssues_Nil)
qed

lemma CreateTable_parse_Inr:
  "CreateTableParamsSchema_parse args = Inr p \<longleftrightarrow>
     arg_tableName args \<noteq> [] \<and> arg_columns args \<noteq> []
     \<and> list_all (\<lambda>col. col_name col \<noteq> [] \<and> col_type col \<noteq> []) (arg_columns args)
     \<and> p = \<lparr>tableName = arg_tableName args, columns = arg_columns args,
              ifNotExists = (case arg_ifNotExists args of None \<Rightarrow> True | Some b \<Rightarrow> b)\<rparr>"
  using all_columnIssues_Nil [of 0 "arg_columns args"]
  by (auto simp: CreateTableParamsSchema_parse_def Let_def)

lemma CreateTable_parse_disj:
  "(\<exists>issues. CreateTableParamsSchema_parse args = Inl (ZodError issues))
   \<or> CreateTableParamsSchema_parse args =
       Inr \<lparr>tableName = arg_tableName args, columns = arg_columns args,
            ifNotExists = (case arg_ifNotExists args of None \<Rightarrow> True | Some b \<Rightarrow> b)\<rparr>"
  by (simp add: CreateTableParamsSchema_parse_def Let_def)

lemma CreateTable_parse_cases:
  obtains (zod) issues where "CreateTableParamsSchema_parse args = Inl (ZodError issues)"
  | (parsed) "CreateTableParamsSchema_parse args =
       Inr \<lparr>tableName = arg_tableName args, columns = arg_columns args,
            ifNotExists = (case arg_ifNotExists args of None \<Rightarrow> True | Some b \<Rightarrow> b)\<rparr>"
  using CreateTable_parse_disj [of args] by (elim disjE exE)

lemma validIdentifier_nonempty: "validIdentifier s \<Longrightarrow> s \<noteq> []"
  by (auto simp: validIdentifier_def)

lemma find_invalid_None:
  "find (\<lambda>column. \<not> validIdentifier (col_name column)) cols = None
     \<longleftrightarrow> list_all (\<lambda>col. validIdentifier (col_name col)) cols"
  by (auto simp: find_None_iff list_all_iff)

lemma sent_DatabaseManager_createTable:
  "sent_statements (snd (DatabaseManager_createTable db name cols ine tr)) =
     sent_statements tr
     @ (if pool_connect (pool db) = None then [(amended_createTableSQL name cols ine, None)] else [])"
proof -
  have "(\<lambda>col. col_name col @ '' '' @ col_type col
           @ (case col_constraints col of None \<Rightarrow> [] | Some c \<Rightarrow> if c = [] then [] else '' '' @ c))
        = amended_columnEntry"
    by (auto simp: amended_columnEntry_def fun_eq_iff)
  then show ?thesis
    by (simp add: DatabaseManager_createTable_def Let_def sent_DatabaseManager_execute
          amended_createTableSQL_def)
qed

lemma handleCreateTable_passes:
  assumes "passesValidation args"
  shows "sent_statements (snd (handleCreateTable db args tr)) =
     sent_statements tr
     @ (if pool_connect (pool db) = None
        then [(amended_createTableSQL (arg_tableName args) (arg_columns args)
                 (case arg_ifNotExists args of None \<Rightarrow> True | Some b \<Rightarrow> b), None)]
        else [])"
proof -
  let ?p = "\<lparr>tableName = arg_tableName args, columns = arg_columns args,
              ifNotExists = (case arg_ifNotExists args of None \<Rightarrow> True | Some b \<Rightarrow> b)\<rparr>"
  from assms have "list_all (\<lambda>col. col_name col \<noteq> [] \<and> col_type col \<noteq> []) (arg_columns args)"
    by (auto simp: passesValidation_def list_all_iff dest: validIdentifier_nonempty)
  with assms have p: "CreateTableParamsSchema_parse args = Inr ?p"
    by (simp add: CreateTable_parse_Inr passesValidation_def validIdentifier_nonempty)
  from assms have f: "find (\<lambda>column. \<not> validIdentifier (col_name column)) (arg_columns args) = None"
    by (simp add: find_invalid_None passesValidation_def)
  from assms have v: "validIdentifier (arg_tableName args)"
    by (simp add: passesValidation_def)
  obtain r tr2 where c: "DatabaseManager_createTable db (arg_tableName args) (arg_columns args)
       (case arg_ifNotExists args of None \<Rightarrow> True | Some b \<Rightarrow> b)
       (tr @ [Logged LInfo ''Creating table'']) = (r, tr2)"
    by (cases "DatabaseManager_createTable db (arg_tableName args) (arg_columns args)
       (case arg_ifNotExists args of None \<Rightarrow> True | Some b \<Rightarrow> b)
       (tr @ [Logged LInfo ''Creating table''])") auto
  have "sent_statements tr2 = sent_statements tr
     @ (if pool_connect (pool db) = None
        then [(amended_createTableSQL (arg_tableName args) (arg_columns args)
                 (case arg_ifNotExists args of None \<Rightarrow> True | Some b \<Rightarrow> b), None)]
        else [])"
    using sent_DatabaseManager_createTable [of db "arg_tableName args" "arg_columns args"
        "case arg_ifNotExists args of None \<Rightarrow> True | Some b \<Rightarrow> b"
        "tr @ [Logged LInfo ''Creating table'']"] c
    by simp
  with p f v c show ?thesis
    by (cases r) (simp_all add: handleCreateTable_def Let_def)
qed

text \<open>What \<open>handleCreateTable\<close> does with an input that does not pass validation: one of
  three error answers, and a trace of log lines only.\<close>

lemma handleCreateTable_rejects:
  assumes "\<not> passesValidation args"
  shows "isError (fst (handleCreateTable db args tr))
     \<and> (snd (handleCreateTable db args tr) = tr @ [Logged LError ''Create table tool error'']
        \<or> snd (handleCreateTable db args tr) =
             tr @ [Logged LInfo ''Creating table'', Logged LError ''Create table tool error''])"
proof (cases rule: CreateTable_parse_cases [of args])
  case (zod issues)
  then show ?thesis by (simp add: handleCreateTable_def caught_def)
next
  case parsed
  then have ne: "arg_tableName args \<noteq> []" "arg_columns args \<noteq> []"
    "list_all (\<lambda>col. col_name col \<noteq> [] \<and> col_type col \<noteq> []) (arg_columns args)"
    by (simp_all add: CreateTable_parse_Inr)
  show ?thesis
  proof (cases "validIdentifier (arg_tableName args)")
    case False
    with parsed show ?thesis by (simp add: handleCreateTable_def caught_def Let_def)
  next
    case True
    with assms ne have "\<not> list_all (\<lambda>col. validIdentifier (col_name col)) (arg_columns args)"
      by (auto simp: passesValidation_def list_all_iff)
    then obtain c where "find (\<lambda>column. \<not> validIdentifier (col_name column)) (arg_columns args) = Some c"
      using find_invalid_None [of "arg_columns args"] by auto
    with parsed True show ?thesis by (simp add: handleCreateTable_def caught_def Let_def)
  qed
qed

lemma handleDescribeTable_rejects:
  assumes "\<not> validIdentifier (describe_tableName args)"
  shows "handleDescribeTable db args tr =
           (if describe_tableName args = []
            then (\<lparr>content_text = ''Input Validation Error: tableName: Table name cannot be empty'',
                   isError = True\<rparr>,
                  tr @ [Logged LError ''Describe table tool error''])
            else (\<lparr>content_text = ''Validation Error: '' @ invalidTableName, isError = True\<rparr>,
                  tr @ [Logged LInfo ''Describing table'', Logged LError ''Describe table tool error'']))"
  using assms
  by (simp add: handleDescribeTable_def DescribeTableParamsSchema_parse_def caught_def Let_def
        issueDetails_def)

lemma list_ex_invalid:
  "list_ex (\<lambda>col. \<not> validIdentifier (col_name col)) cols
     \<longleftrightarrow> \<not> list_all (\<lambda>col. validIdentifier (col_name col)) cols"
  by (auto simp: list_ex_iff list_all_iff)

section \<open>Facts about the shape validation of create-table\<close>

lemma join_Cons_prefix: "\<exists>t. join (x # xs) sep = x @ t"
  by (cases xs) auto

lemma startsWith_append: "startsWith (p @ t) p"
  by (simp add: startsWith_def)

lemma issueDetails_first:
  "\<exists>t. issueDetails (i # rest) = join (path i) ''.'' @ '': '' @ message i @ t"
  using join_Cons_prefix [of "join (path i) ''.'' @ '': '' @ message i"
      "map (\<lambda>issue. join (path issue) ''.'' @ '': '' @ message issue) rest" "'', ''"]
  by (auto simp: issueDetails_def)

lemma zip_upt_nth: "i < length xs \<Longrightarrow> (i, xs ! i) \<in> set (zip [0 ..< length xs] xs)"
  unfolding set_zip by (rule CollectI, rule exI [of _ i]) simp

lemma CreateTable_parse_Inl:
  assumes "arg_tableName args = [] \<or> arg_columns args = []
           \<or> list_ex (\<lambda>col. col_name col = [] \<or> col_type col = []) (arg_columns args)"
  shows "CreateTableParamsSchema_parse args =
           Inl (ZodError
             ((if arg_tableName args = []
               then [\<lparr>path = [''tableName''], message = ''Table name cannot be empty''\<rparr>] else [])
              @ (if arg_columns args = []
                 then [\<lparr>path = [''columns''], message = ''At least one column is required''\<rparr>] else [])
              @ concat (map (\<lambda>(i, col). columnIssues i col)
                          (zip [0 ..< length (arg_columns args)] (arg_columns args)))))"
    and "(if arg_tableName args = []
               then [\<lparr>path = [''tableName''], message = ''Table name cannot be empty''\<rparr>] else [])
              @ (if arg_columns args = []
                 then [\<lparr>path = [''columns''], message = ''At least one column is required''\<rparr>] else [])
              @ concat (map (\<lambda>(i, col). columnIssues i col)
                          (zip [0 ..< length (arg_columns args)] (arg_columns args))) \<noteq> []"
proof -
  have "\<not> (arg_tableName args \<noteq> [] \<and> arg_columns args \<noteq> []
          \<and> list_all (\<lambda>col. col_name col \<noteq> [] \<and> col_type col \<noteq> []) (arg_columns args))"
    using assms by (auto simp: list_ex_iff list_all_iff)
  then show "(if arg_tableName args = []
               then [\<lparr>path = [''tableName''], message = ''Table name cannot be empty''\<rparr>] else [])
              @ (if arg_columns args = []
                 then [\<lparr>path = [''columns''], message = ''At least one column is required''\<rparr>] else [])
              @ concat (map (\<lambda>(i, col). columnIssues i col)
                          (zip [0 ..< length (arg_columns args)] (arg_columns args))) \<noteq> []"
    using all_columnIssues_Nil [of 0 "arg_columns args"] by auto
  then show "CreateTableParamsSchema_parse args =
           Inl (ZodError
             ((if arg_tableName args = []
               then [\<lparr>path = [''tableName''], message = ''Table name cannot be empty''\<rparr>] else [])
              @ (if arg_columns args = []
                 then [\<lparr>path = [''columns''], message = ''At least one column is required''\<rparr>] else [])
              @ concat (map (\<lambda>(i, col). columnIssues i col)
                          (zip [0 ..< length (arg_columns args)] (arg_columns args)))))"
    unfolding CreateTableParamsSchema_parse_def Let_def by (simp only: if_False)
qed

lemma CreateTable_parse_Inl_iff:
  "(\<exists>err. CreateTableParamsSchema_parse args = Inl err) \<longleftrightarrow>
     arg_tableName args = [] \<or> arg_columns args = []
     \<or> list_ex (\<lambda>col. col_name col = [] \<or> col_type col = []) (arg_columns args)"
proof
  assume "\<exists>err. CreateTableParamsSchema_parse args = Inl err"
  then have "\<not> (\<exists>p. CreateTableParamsSchema_parse args = Inr p)" by auto
  then show "arg_tableName args = [] \<or> arg_columns args = []
     \<or> list_ex (\<lambda>col. col_name col = [] \<or> col_type col = []) (arg_columns args)"
    by (auto simp: CreateTable_parse_Inr list_ex_iff list_all_iff)
next
  assume "arg_tableName args = [] \<or> arg_columns args = []
     \<or> list_ex (\<lambda>col. col_name col = [] \<or> col_type col = []) (arg_columns args)"
  from CreateTable_parse_Inl(1) [OF this] show "\<exists>err. CreateTableParamsSchema_parse args = Inl err"
    by blast
qed

lemma CreateTable_parse_Inl_issues:
  assumes "CreateTableParamsSchema_parse args = Inl err"
  obtains issues where "err = ZodError issues" "issues \<noteq> []"
proof -
  from assms have a: "arg_tableName args = [] \<or> arg_columns args = []
     \<or> list_ex (\<lambda>col. col_name col = [] \<or> col_type col = []) (arg_columns args)"
    using CreateTable_parse_Inl_iff [of args] by blast
  from CreateTable_parse_Inl [OF a] assms that show thesis by simp
qed

lemma handleCreateTable_zod:
  assumes "CreateTableParamsSchema_parse args = Inl (ZodError issues)"
  shows "handleCreateTable db args tr =
           (\<lparr>content_text = ''Input Validation Error: '' @ issueDetails issues, isError = True\<rparr>,
            tr @ [Logged LError ''Create table tool error''])"
  using assms by (simp add: handleCreateTable_def caught_def)

lemma CreateTable_parse_empty_table:
  assumes "arg_tableName args = []"
  shows "\<exists>rest. CreateTableParamsSchema_parse args =
           Inl (ZodError (\<lparr>path = [''tableName''], message = ''Table name cannot be empty''\<rparr> # rest))"
proof -
  from assms have "arg_tableName args = [] \<or> arg_columns args = []
     \<or> list_ex (\<lambda>col. col_name col = [] \<or> col_type col = []) (arg_columns args)" by simp
  from CreateTable_parse_Inl(1) [OF this] assms show ?thesis by simp
qed

lemma CreateTable_parse_empty_column:
  assumes "i < length (arg_columns args)" "col_name (arg_columns args ! i) = []"
  shows "\<exists>issues. CreateTableParamsSchema_parse args = Inl (ZodError issues)
           \<and> \<lparr>path = [''columns'', string_of_nat i, ''name''], message = ''Column name cannot be empty''\<rparr>
               \<in> set issues"
proof -
  from assms have "arg_columns args ! i \<in> set (arg_columns args)" by simp
  with assms(2) have "list_ex (\<lambda>col. col_name col = [] \<or> col_type col = []) (arg_columns args)"
    by (auto simp: list_ex_iff)
  then have a: "arg_tableName args = [] \<or> arg_columns args = []
     \<or> list_ex (\<lambda>col. col_name col = [] \<or> col_type col = []) (arg_columns args)" by simp
  have "\<lparr>path = [''columns'', string_of_nat i, ''name''], message = ''Column name cannot be empty''\<rparr>
          \<in> set (columnIssues i (arg_columns args ! i))"
    using assms(2) by (simp add: columnIssues_def)
  with zip_upt_nth [OF assms(1)]
  have "\<lparr>path = [''columns'', string_of_nat i, ''name''], message = ''Column name cannot be empty''\<rparr>
          \<in> set (concat (map (\<lambda>(i, col). columnIssues i col)
                          (zip [0 ..< length (arg_columns args)] (arg_columns args))))"
    by force
  with CreateTable_parse_Inl(1) [OF a] show ?thesis by simp
qed

lemma valid_examples:
  "\<not> validIdentifier ''1bad''" "\<not> validIdentifier ''a b''" "\<not> validIdentifier ''a;b''"
  "validIdentifier ''t''" "validIdentifier ''users''" "validIdentifier ''id''" "validIdentifier ''name''"
  by (simp_all add: validIdentifier_def isIdentStart_def isIdentPart_def)

lemma parse_examples:
  "CreateTableParamsSchema_parse badTableArgs =
     Inr \<lparr>tableName = ''1bad'', columns = [nameColumn], ifNotExists = True\<rparr>"
  "CreateTableParamsSchema_parse badColumnArgs =
     Inr \<lparr>tableName = ''t'', columns = [nameColumn, spaceColumn], ifNotExists = False\<rparr>"
  by (simp_all add: CreateTable_parse_Inr badTableArgs_def badColumnArgs_def nameColumn_def
        spaceColumn_def)

lemma string_of_nat_1: "string_of_nat (Suc 0) = ''1''"
  by code_simp

lemma parse_wrong_shape:
  "CreateTableParamsSchema_parse noColumnArgs =
     Inl (ZodError [\<lparr>path = [''columns''], message = ''At least one column is required''\<rparr>])"
  "CreateTableParamsSchema_parse emptyNamesArgs =
     Inl (ZodError [\<lparr>path = [''tableName''], message = ''Table name cannot be empty''\<rparr>,
                    \<lparr>path = [''columns'', ''1'', ''name''], message = ''Column name cannot be empty''\<rparr>])"
  by (simp_all add: CreateTableParamsSchema_parse_def noColumnArgs_def emptyNamesArgs_def
        nameColumn_def emptyColumn_def columnIssues_def upt_rec string_of_nat_1)

lemma issueDetails_examples:
  "issueDetails [\<lparr>path = [''columns''], message = ''At least one column is required''\<rparr>]
     = ''columns: At least one column is required''"
  "issueDetails [\<lparr>path = [''tableName''], message = ''Table name cannot be empty''\<rparr>,
                 \<lparr>path = [''columns'', ''1'', ''name''], message = ''Column name cannot be empty''\<rparr>]
     = ''tableName: Table name cannot be empty, columns.1.name: Column name cannot be empty''"
  by (simp_all add: issueDetails_def)

section \<open>The table operations\<close>

text \<open>
  Claim C8, as the code has it. A table name or a column name that is no identifier makes
  create-table and describe-table answer with an error, and the trace gains log lines
  only: no client is taken from the pool and nothing is sent. Which error depends on the
  input. The shape validation comes first. In create-table it finds an issue exactly when
  the table's name is empty, there is no column, or a column has an empty name or type;
  the answer is then \<open>Input Validation Error:\<close> with the details of all the issues,
  whatever the names are otherwise: the empty table name comes first in them, and the
  empty name of column \<open>i\<close> is among them under the path \<open>columns.i.name\<close>. In an
  input of the right shape, a table name that is no identifier gives a \<open>ValidationError\<close>
  with a fixed message, the same for every name, and with a good table name the
  first column name that is no identifier gives a \<open>ValidationError\<close> that quotes it. In
  describe-table the empty name gives the \<open>Input Validation Error\<close> of the shape
  validation and any other bad name the fixed message.
\<close>

theorem identifiers_validated_first:
  "((\<not> validIdentifier (arg_tableName args)
       \<or> list_ex (\<lambda>col. \<not> validIdentifier (col_name col)) (arg_columns args)) \<longrightarrow>
      isError (fst (handleCreateTable db args tr))
      \<and> (snd (handleCreateTable db args tr) = tr @ [Logged LError ''Create table tool error'']
         \<or> snd (handleCreateTable db args tr) =
              tr @ [Logged LInfo ''Creating table'', Logged LError ''Create table tool error'']))
   \<and> ((\<exists>err. CreateTableParamsSchema_parse args = Inl err) \<longleftrightarrow>
        arg_tableName args = [] \<or> arg_columns args = []
        \<or> list_ex (\<lambda>col. col_name col = [] \<or> col_type col = []) (arg_columns args))
   \<and> (CreateTableParamsSchema_parse args = Inl err \<longrightarrow>
        (\<exists>issues. err = ZodError issues \<and> issues \<noteq> []
           \<and> handleCreateTable db args tr =
               (\<lparr>content_text = ''Input Validation Error: '' @ issueDetails issues, isError = True\<rparr>,
                tr @ [Logged LError ''Create table tool error''])))
   \<and> (arg_tableName args = [] \<longrightarrow>
        startsWith (content_text (fst (handleCreateTable db args tr)))
          ''Input Validation Error: tableName: Table name cannot be empty'')
   \<and> (i < length (arg_columns args) \<and> col_name (arg_columns args ! i) = [] \<longrightarrow>
        (\<exists>issues. CreateTableParamsSchema_parse args = Inl (ZodError issues)
           \<and> \<lparr>path = [''columns'', string_of_nat i, ''name''], message = ''Column name cannot be empty''\<rparr>
               \<in> set issues))
   \<and> (CreateTableParamsSchema_parse args = Inr p \<and> \<not> validIdentifier (tableName p) \<longrightarrow>
        handleCreateTable db args tr =
          (\<lparr>content_text = ''Validation Error: '' @ invalidTableName, isError = True\<rparr>,
           tr @ [Logged LInfo ''Creating table'', Logged LError ''Create table tool error'']))
   \<and> (CreateTableParamsSchema_parse args = Inr p \<and> validIdentifier (tableName p)
        \<and> find (\<lambda>column. \<not> validIdentifier (col_name column)) (columns p) = Some c \<longrightarrow>
        handleCreateTable db args tr =
          (\<lparr>content_text = ''Validation Error: Invalid column name '' @ sq @ col_name c @ sq
              @ ''. Column names must start with a letter or underscore and contain only letters, numbers, and underscores.'',
            isError = True\<rparr>,
           tr @ [Logged LInfo ''Creating table'', Logged LError ''Create table tool error'']))
   \<and> (\<not> validIdentifier (describe_tableName dargs) \<longrightarrow>
        handleDescribeTable db dargs tr =
           (if describe_tableName dargs = []
            then (\<lparr>content_text = ''Input Validation Error: tableName: Table name cannot be empty'',
                   isError = True\<rparr>,
                  tr @ [Logged LError ''Describe table tool error''])
            else (\<lparr>content_text = ''Validation Error: '' @ invalidTableName, isError = True\<rparr>,
                  tr @ [Logged LInfo ''Describing table'', Logged LError ''Describe table tool error''])))"
proof (intro conjI impI)
  assume "\<not> validIdentifier (arg_tableName args)
       \<or> list_ex (\<lambda>col. \<not> validIdentifier (col_name col)) (arg_columns args)"
  then have n: "\<not> passesValidation args"
    by (auto simp: passesValidation_def list_ex_invalid)
  from handleCreateTable_rejects [OF n]
  show "isError (fst (handleCreateTable db args tr))"
    and "snd (handleCreateTable db args tr) = tr @ [Logged LError ''Create table tool error'']
         \<or> snd (handleCreateTable db args tr) =
              tr @ [Logged LInfo ''Creating table'', Logged LError ''Create table tool error'']"
    by blast+
next
  show "(\<exists>err. CreateTableParamsSchema_parse args = Inl err) \<longleftrightarrow>
        arg_tableName args = [] \<or> arg_columns args = []
        \<or> list_ex (\<lambda>col. col_name col = [] \<or> col_type col = []) (arg_columns args)"
    by (rule CreateTable_parse_Inl_iff)
next
  assume e: "CreateTableParamsSchema_parse args = Inl err"
  then obtain issues where i: "err = ZodError issues" "issues \<noteq> []"
    by (rule CreateTable_parse_Inl_issues)
  with e handleCreateTable_zod [of args issues db tr]
  show "\<exists>issues. err = ZodError issues \<and> issues \<noteq> []
           \<and> handleCreateTable db args tr =
               (\<lparr>content_text = ''Input Validation Error: '' @ issueDetails issues, isError = True\<rparr>,
                tr @ [Logged LError ''Create table tool error''])"
    by simp
next
  assume "arg_tableName args = []"
  from CreateTable_parse_empty_table [OF this] obtain rest where
    p: "CreateTableParamsSchema_parse args =
           Inl (ZodError (\<lparr>path = [''tableName''], message = ''Table name cannot be empty''\<rparr> # rest))"
    by blast
  from issueDetails_first [of "\<lparr>path = [''tableName''], message = ''Table name cannot be empty''\<rparr>" rest]
  obtain t where "issueDetails (\<lparr>path = [''tableName''], message = ''Table name cannot be empty''\<rparr> # rest)
      = ''tableName: Table name cannot be empty'' @ t"
    by auto
  with handleCreateTable_zod [OF p, of db tr]
  have "content_text (fst (handleCreateTable db args tr)) =
          ''Input Validation Error: tableName: Table name cannot be empty'' @ t"
    by simp
  then show "startsWith (content_text (fst (handleCreateTable db args tr)))
          ''Input Validation Error: tableName: Table name cannot be empty''"
    by (simp only: startsWith_append)
next
  assume "i < length (arg_columns args) \<and> col_name (arg_columns args ! i) = []"
  then show "\<exists>issues. CreateTableParamsSchema_parse args = Inl (ZodError issues)
           \<and> \<lparr>path = [''columns'', string_of_nat i, ''name''], message = ''Column name cannot be empty''\<rparr>
               \<in> set issues"
    using CreateTable_parse_empty_column [of i args] by simp
next
  assume "CreateTableParamsSchema_parse args = Inr p \<and> \<not> validIdentifier (tableName p)"
  then show "handleCreateTable db args tr =
          (\<lparr>content_text = ''Validation Error: '' @ invalidTableName, isError = True\<rparr>,
           tr @ [Logged LInfo ''Creating table'', Logged LError ''Create table tool error''])"
    by (simp add: handleCreateTable_def caught_def Let_def)
next
  assume "CreateTableParamsSchema_parse args = Inr p \<and> validIdentifier (tableName p)
        \<and> find (\<lambda>column. \<not> validIdentifier (col_name column)) (columns p) = Some c"
  then show "handleCreateTable db args tr =
          (\<lparr>content_text = ''Validation Error: Invalid column name '' @ sq @ col_name c @ sq
              @ ''. Column names must start with a letter or underscore and contain only letters, numbers, and underscores.'',
            isError = True\<rparr>,
           tr @ [Logged LInfo ''Creating table'', Logged LError ''Create table tool error''])"
    by (simp add: handleCreateTable_def caught_def Let_def)
next
  assume "\<not> validIdentifier (describe_tableName dargs)"
  then show "handleDescribeTable db dargs tr =
           (if describe_tableName dargs = []
            then (\<lparr>content_text = ''Input Validation Error: tableName: Table name cannot be empty'',
                   isError = True\<rparr>,
                  tr @ [Logged LError ''Describe table tool error''])
            else (\<lparr>content_text = ''Validation Error: '' @ invalidTableName, isError = True\<rparr>,
                  tr @ [Logged LInfo ''Describing table'', Logged LError ''Describe table tool error'']))"
    by (rule handleDescribeTable_rejects)
qed

text \<open>
  The witness: the table name \<open>1bad\<close> with a column of the right shape and with no
  column at all, a column name with a space in it, an empty table name together with an
  empty column name, and the name \<open>a;b\<close> for describe-table.
\<close>

theorem identifiers_validated_first_witness:
  "\<not> validIdentifier (arg_tableName badTableArgs)
   \<and> handleCreateTable exampleDb badTableArgs [] =
        (\<lparr>content_text = ''Validation Error: '' @ invalidTableName, isError = True\<rparr>,
         [Logged LInfo ''Creating table'', Logged LError ''Create table tool error''])
   \<and> find (\<lambda>column. \<not> validIdentifier (col_name column)) (arg_columns badColumnArgs) = Some spaceColumn
   \<and> handleCreateTable exampleDb badColumnArgs [] =
        (\<lparr>content_text = ''Validation Error: Invalid column name '' @ sq @ ''a b'' @ sq
            @ ''. Column names must start with a letter or underscore and contain only letters, numbers, and underscores.'',
          isError = True\<rparr>,
         [Logged LInfo ''Creating table'', Logged LError ''Create table tool error''])
   \<and> \<not> validIdentifier (arg_tableName noColumnArgs)
   \<and> handleCreateTable exampleDb noColumnArgs [] =
        (\<lparr>content_text = ''Input Validation Error: columns: At least one column is required'',
          isError = True\<rparr>,
         [Logged LError ''Create table tool error''])
   \<and> arg_tableName emptyNamesArgs = [] \<and> col_name (arg_columns emptyNamesArgs ! 1) = []
   \<and> handleCreateTable exampleDb emptyNamesArgs [] =
        (\<lparr>content_text = ''Input Validation Error: tableName: Table name cannot be empty, columns.1.name: Column name cannot be empty'',
          isError = True\<rparr>,
         [Logged LError ''Create table tool error''])
   \<and> handleDescribeTable exampleDb \<lparr>describe_tableName = ''a;b''\<rparr> [] =
        (\<lparr>content_text = ''Validation Error: '' @ invalidTableName, isError = True\<rparr>,
         [Logged LInfo ''Describing table'', Logged LError ''Describe table tool error''])"
proof -
  have t: "\<not> validIdentifier (arg_tableName badTableArgs)"
    by (simp add: badTableArgs_def valid_examples)
  have f: "find (\<lambda>column. \<not> validIdentifier (col_name column)) (arg_columns badColumnArgs) = Some spaceColumn"
    by (simp add: badColumnArgs_def nameColumn_def spaceColumn_def valid_examples)
  have n: "\<not> validIdentifier (arg_tableName noColumnArgs)"
    by (simp add: noColumnArgs_def valid_examples)
  have e: "arg_tableName emptyNamesArgs = []" "col_name (arg_columns emptyNamesArgs ! 1) = []"
    by (simp_all add: emptyNamesArgs_def emptyColumn_def)
  from identifiers_validated_first [where args = badTableArgs and db = exampleDb and tr = "[]"
      and p = "\<lparr>tableName = ''1bad'', columns = [nameColumn], ifNotExists = True\<rparr>"
      and dargs = "\<lparr>describe_tableName = ''a;b''\<rparr>"] parse_examples(1)
  have 1: "handleCreateTable exampleDb badTableArgs [] =
        (\<lparr>content_text = ''Validation Error: '' @ invalidTableName, isError = True\<rparr>,
         [Logged LInfo ''Creating table'', Logged LError ''Create table tool error''])"
    "handleDescribeTable exampleDb \<lparr>describe_tableName = ''a;b''\<rparr> [] =
        (\<lparr>content_text = ''Validation Error: '' @ invalidTableName, isError = True\<rparr>,
         [Logged LInfo ''Describing table'', Logged LError ''Describe table tool error''])"
    by (simp_all add: valid_examples)
  from identifiers_validated_first [where args = badColumnArgs and db = exampleDb and tr = "[]"
      and p = "\<lparr>tableName = ''t'', columns = [nameColumn, spaceColumn], ifNotExists = False\<rparr>"
      and c = spaceColumn] f parse_examples(2)
  have 2: "handleCreateTable exampleDb badColumnArgs [] =
        (\<lparr>content_text = ''Validation Error: Invalid column name '' @ sq @ ''a b'' @ sq
            @ ''. Column names must start with a letter or underscore and contain only letters, numbers, and underscores.'',
          isError = True\<rparr>,
         [Logged LInfo ''Creating table'', Logged LError ''Create table tool error''])"
    by (simp add: valid_examples badColumnArgs_def spaceColumn_def)
  from identifiers_validated_first [where args = noColumnArgs and db = exampleDb and tr = "[]"
      and err = "ZodError [\<lparr>path = [''columns''], message = ''At least one column is required''\<rparr>]"]
    parse_wrong_shape(1)
  have 3: "handleCreateTable exampleDb noColumnArgs [] =
        (\<lparr>content_text = ''Input Validation Error: columns: At least one column is required'',
          isError = True\<rparr>,
         [Logged LError ''Create table tool error''])"
    by (simp add: issueDetails_examples)
  from identifiers_validated_first [where args = emptyNamesArgs and db = exampleDb and tr = "[]"
      and err = "ZodError [\<lparr>path = [''tableName''], message = ''Table name cannot be empty''\<rparr>,
                    \<lparr>path = [''columns'', ''1'', ''name''], message = ''Column name cannot be empty''\<rparr>]"]
    parse_wrong_shape(2)
  have 4: "handleCreateTable exampleDb emptyNamesArgs [] =
        (\<lparr>content_text = ''Input Validation Error: tableName: Table name cannot be empty, columns.1.name: Column name cannot be empty'',
          isError = True\<rparr>,
         [Logged LError ''Create table tool error''])"
    by (simp add: issueDetails_examples)
  from t f n e 1 2 3 4 show ?thesis
    by (intro conjI)
qed

text \<open>
  Claim C8 as the specification states it asks for a \<open>ValidationError\<close> that names the bad
  identifier. For the table name \<open>1bad\<close> the answer is the fixed message, in which
  \<open>1bad\<close> does not occur, and with no column it is the \<open>Input Validation Error\<close> of
  the shape validation, about the columns. The empty table name, which is no identifier
  either, is refused by the shape validation as well.
\<close>

theorem identifiers_validated_first_counterexample:
  "\<not> validIdentifier ''1bad''
   \<and> content_text (fst (handleCreateTable exampleDb badTableArgs [])) =
        ''Validation Error: '' @ invalidTableName
   \<and> \<not> js_includes (''Validation Error: '' @ invalidTableName) ''1bad''
   \<and> arg_tableName noColumnArgs = ''1bad''
   \<and> content_text (fst (handleCreateTable exampleDb noColumnArgs [])) =
        ''Input Validation Error: columns: At least one column is required''
   \<and> \<not> validIdentifier []
   \<and> content_text (fst (handleDescribeTable exampleDb \<lparr>describe_tableName = []\<rparr> [])) =
        ''Input Validation Error: tableName: Table name cannot be empty''"
proof -
  have a: "content_text (fst (handleCreateTable exampleDb badTableArgs [])) =
        ''Validation Error: '' @ invalidTableName"
    by (simp add: handleCreateTable_def parse_examples valid_examples caught_def Let_def)
  have b: "\<not> js_includes (''Validation Error: '' @ invalidTableName) ''1bad''"
    by (simp add: invalidTableName_def startsWith_def)
  have c: "content_text (fst (handleDescribeTable exampleDb \<lparr>describe_tableName = []\<rparr> [])) =
        ''Input Validation Error: tableName: Table name cannot be empty''"
    by (simp add: handleDescribeTable_def DescribeTableParamsSchema_parse_def caught_def issueDetails_def)
  have d: "\<not> validIdentifier []"
    by (simp add: validIdentifier_def)
  have e: "arg_tableName noColumnArgs = ''1bad''"
    by (simp add: noColumnArgs_def)
  have f: "content_text (fst (handleCreateTable exampleDb noColumnArgs [])) =
        ''Input Validation Error: columns: At least one column is required''"
    using handleCreateTable_zod [OF parse_wrong_shape(1), of exampleDb "[]"]
    by (simp add: issueDetails_examples)
  from a b c d e f valid_examples(1) show ?thesis
    by (intro conjI)
qed

text \<open>
  Claim C10, as the code has it. An input passes validation when the table's name and
  every column's name are identifiers, there is a column and no type is empty. For such an
  input \<open>handleCreateTable\<close> sends one statement, with no bound parameters, when the pool
  hands out a client: \<open>amended_createTableSQL\<close> of the name, the columns and the flag
  (true when the input leaves it out). The types and the constraints go into the text as
  they are. Constraints that are the empty string add nothing, not even the space. An
  input that does not pass sends nothing.
\<close>

theorem createTable_statement:
  "(passesValidation args \<longrightarrow>
      sent_statements (snd (handleCreateTable db args tr)) =
        sent_statements tr
        @ (if pool_connect (pool db) = None
           then [(amended_createTableSQL (arg_tableName args) (arg_columns args)
                    (case arg_ifNotExists args of None \<Rightarrow> True | Some b \<Rightarrow> b), None)]
           else []))
   \<and> (\<not> passesValidation args \<longrightarrow>
      isError (fst (handleCreateTable db args tr))
      \<and> sent_statements (snd (handleCreateTable db args tr)) = sent_statements tr)"
proof (intro conjI impI)
  assume "passesValidation args"
  then show "sent_statements (snd (handleCreateTable db args tr)) =
        sent_statements tr
        @ (if pool_connect (pool db) = None
           then [(amended_createTableSQL (arg_tableName args) (arg_columns args)
                    (case arg_ifNotExists args of None \<Rightarrow> True | Some b \<Rightarrow> b), None)]
           else [])"
    by (rule handleCreateTable_passes)
next
  assume n: "\<not> passesValidation args"
  from handleCreateTable_rejects [OF n, of db tr]
  show "isError (fst (handleCreateTable db args tr))" by blast
  from handleCreateTable_rejects [OF n, of db tr]
  show "sent_statements (snd (handleCreateTable db args tr)) = sent_statements tr"
    by auto
qed

text \<open>The witness creates a table of two columns; the type of the second is no
  identifier, and the constraints of the first are the empty string.\<close>

theorem createTable_statement_witness:
  "passesValidation usersArgs
   \<and> sent_statements (snd (handleCreateTable exampleDb usersArgs [])) =
       [(''CREATE TABLE IF NOT EXISTS users (id INT, name VARCHAR(100) NOT NULL)'', None)]
   \<and> isError (fst (handleCreateTable exampleDb badColumnArgs []))
   \<and> sent_statements (snd (handleCreateTable exampleDb badColumnArgs [])) = []"
proof -
  have v: "passesValidation usersArgs"
    by (simp add: passesValidation_def usersArgs_def idColumn_def nameColumn_def valid_examples)
  have n: "\<not> passesValidation badColumnArgs"
    by (simp add: passesValidation_def badColumnArgs_def spaceColumn_def nameColumn_def valid_examples)
  have c: "pool_connect (pool exampleDb) = None"
    by (simp add: exampleDb_def examplePool_def)
  have s: "amended_createTableSQL (arg_tableName usersArgs) (arg_columns usersArgs)
             (case arg_ifNotExists usersArgs of None \<Rightarrow> True | Some b \<Rightarrow> b)
           = ''CREATE TABLE IF NOT EXISTS users (id INT, name VARCHAR(100) NOT NULL)''"
    by (simp add: amended_createTableSQL_def amended_columnEntry_def usersArgs_def idColumn_def
          nameColumn_def)
  from createTable_statement [of usersArgs exampleDb "[]"]
       createTable_statement [of badColumnArgs exampleDb "[]"] v n c s
  show ?thesis by simp
qed

text \<open>
  Claim C10 as it is worded puts a space and the constraints after the type whenever
  constraints are present. For a column whose constraints are the empty string that is a
  space before the closing parenthesis; the statement that is sent has none.
\<close>

theorem createTable_statement_counterexample:
  "col_constraints idColumn = Some []
   \<and> passesValidation \<lparr>arg_tableName = ''t'', arg_columns = [idColumn], arg_ifNotExists = None\<rparr>
   \<and> sent_statements (snd (handleCreateTable exampleDb
         \<lparr>arg_tableName = ''t'', arg_columns = [idColumn], arg_ifNotExists = None\<rparr> []))
       = [(''CREATE TABLE IF NOT EXISTS t (id INT)'', None)]
   \<and> claimed_createTableSQL ''t'' [idColumn] True = ''CREATE TABLE IF NOT EXISTS t (id INT )''"
proof -
  let ?a = "\<lparr>arg_tableName = ''t'', arg_columns = [idColumn], arg_ifNotExists = None\<rparr>"
  have v: "passesValidation ?a"
    by (simp add: passesValidation_def idColumn_def valid_examples)
  have c: "pool_connect (pool exampleDb) = None"
    by (simp add: exampleDb_def examplePool_def)
  have "sent_statements (snd (handleCreateTable exampleDb ?a [])) =
          [(amended_createTableSQL ''t'' [idColumn] True, None)]"
    using handleCreateTable_passes [OF v, of exampleDb "[]"] c by simp
  then show ?thesis using v
    by (simp add: amended_createTableSQL_def amended_columnEntry_def claimed_createTableSQL_def
          claimed_columnEntry_def idColumn_def)
qed


section \<open>The unreachable redirect of the mutate-execute operation\<close>


lemma hd_split_ws: "\<exists>rest. split_ws s = takeWhile (\<lambda>c. \<not> isWhiteSpace c) s # rest"
  by (subst split_ws.simps) (simp add: Let_def)

lemma toLowerCase_takeWhile:
  "toLowerCase (takeWhile P s) = take (length (takeWhile P s)) (toLowerCase s)"
proof -
  have "takeWhile P s = take (length (takeWhile P s)) s"
    by (rule takeWhile_eq_take)
  then have "map lowerChar (takeWhile P s) = map lowerChar (take (length (takeWhile P s)) s)"
    by simp
  then show ?thesis
    by (simp add: toLowerCase_def take_map)
qed

lemma allowed_not_with:
  "w \<in> set ALLOWED_COMMANDS \<Longrightarrow> 4 \<le> length w \<and> take 4 w \<noteq> ''with'' \<and> w \<noteq> ''select''"
  by (auto simp: ALLOWED_COMMANDS_def)

text \<open>
  In \<open>handleExecute\<close> the test for \<open>select\<close> and \<open>with\<close> comes after the allow-list.
  A text whose leading word is in \<open>ALLOWED_COMMANDS\<close> has a leading word that is not
  \<open>select\<close>, and does not begin with \<open>with\<close>: the test never succeeds, for any text.
\<close>

lemma handleExecute_redirect_unreachable:
  assumes "split_ws (trim q) = w # rest"
      and "toLowerCase w \<in> set ALLOWED_COMMANDS"
  shows "\<not> (Some (toLowerCase w) = Some ''select'' \<or> startsWith (toLowerCase (trim q)) ''with'')"
proof -
  from assms(1) hd_split_ws [of "trim q"] have w: "w = takeWhile (\<lambda>c. \<not> isWhiteSpace c) (trim q)"
    by auto
  let ?t = "toLowerCase (trim q)"
  have p: "toLowerCase w = take (length w) ?t"
    unfolding w by (rule toLowerCase_takeWhile)
  from allowed_not_with [OF assms(2)]
  have l: "4 \<le> length w" and n: "take 4 (toLowerCase w) \<noteq> ''with''" and s: "toLowerCase w \<noteq> ''select''"
    by (simp_all add: toLowerCase_def)
  from p l have "take 4 (toLowerCase w) = take 4 ?t"
    by (simp add: min_def)
  with n have "take (length ''with'') ?t \<noteq> ''with''"
    by (simp del: take_Suc_Cons add: numeral_eq_Suc)
  then have "\<not> startsWith ?t ''with''"
    unfolding startsWith_def .
  with s show ?thesis by simp
qed


end
